theory Spec2Isabelle
  imports Complex_Main "HOL-Library.Word"
begin

text \<open>
  The program is a batch job: it fetches the payments of HelloAsso and the members of a
  Baserow table, keeps the latest membership-fee payment of every payer, matches payments
  to members by e-mail address, reminds the members whose latest payment is older than a
  year and marks the others as active. This theory embeds what main computes between the
  answers of the two services and its calls to them, and how \<open>GetMembers\<close> turns a row
  of the table into a member. HTTP, pagination, the decoding of JSON text, the clock and the
  log are outside the model; what main takes from them is a parameter.
\<close>

section \<open>Values of the Go program\<close>

text \<open>
  Go's \<open>int\<close> is 64 bits wide on every target of the Makefile (darwin-arm64, linux-amd64,
  linux-arm64); \<open>++\<close> wraps.
\<close>

type_synonym go_int = "64 word"

text \<open>
  A \<open>time.Time\<close> is an instant together with the location it is shown in. The instant is
  counted in nanoseconds from January 1 of year 1, 00:00:00 UTC, so that the zero value
  \<open>time.Time{}\<close> is instant 0 in UTC. \<open>zoneOffset\<close> is the offset of the location at
  that instant, in seconds east of UTC.
\<close>

record Time =
  instant :: int
  zoneOffset :: int

definition zeroTime :: Time where
  "zeroTime = \<lparr>instant = 0, zoneOffset = 0\<rparr>"

definition Before :: "Time \<Rightarrow> Time \<Rightarrow> bool" where
  "Before t u = (instant t < instant u)"

definition After :: "Time \<Rightarrow> Time \<Rightarrow> bool" where
  "After t u = (instant t > instant u)"

text \<open>
  \<open>t.Format("2006-01-02")\<close> prints the year, month and day of the calendar date that the
  instant has in the location of \<open>t\<close>. The model keeps the number of that day (days since
  January 1 of year 1 in that location): two such strings are equal exactly when the two
  day numbers are.
\<close>

definition FormatDay :: "Time \<Rightarrow> int" where
  "FormatDay t = (instant t div 1000000000 + zoneOffset t) div 86400"

subsection \<open>helloasso.Payment\<close>

record Payment =
  OrderFormSlug :: string
  OrderDate :: Time
  PayerEmail :: string
  PayerFirstName :: string
  PayerLastName :: string

definition zeroPayment :: Payment where
  "zeroPayment = \<lparr>OrderFormSlug = [], OrderDate = zeroTime, PayerEmail = [],
     PayerFirstName = [], PayerLastName = []\<rparr>"

section \<open>The functions of samber/lo that main uses\<close>

text \<open>
  \<open>lo.GroupBy\<close> walks the collection once and appends every item to the slice stored
  under its key, so a group keeps the order of the collection. A Go map has no iteration
  order; the model keeps the groups in the order in which their keys first appear, and
  \<open>lo.Values\<close> lists them in that order. No theorem below depends on the order of the
  groups.
\<close>

fun appendTo :: "'k \<Rightarrow> 'a \<Rightarrow> ('k \<times> 'a list) list \<Rightarrow> ('k \<times> 'a list) list" where
  "appendTo k x [] = [(k, [x])]"
| "appendTo k x ((k', g) # rest) =
     (if k = k' then (k', g @ [x]) # rest else (k', g) # appendTo k x rest)"

definition GroupBy :: "('a \<Rightarrow> 'k) \<Rightarrow> 'a list \<Rightarrow> ('k \<times> 'a list) list" where
  "GroupBy iteratee collection = foldl (\<lambda>result x. appendTo (iteratee x) x result) [] collection"

definition MapValues :: "('v \<Rightarrow> 'k \<Rightarrow> 'r) \<Rightarrow> ('k \<times> 'v) list \<Rightarrow> ('k \<times> 'r) list" where
  "MapValues iteratee m = map (\<lambda>(k, v). (k, iteratee v k)) m"

definition Values :: "('k \<times> 'v) list \<Rightarrow> 'v list" where
  "Values m = map snd m"

text \<open>
  \<open>lo.MaxBy\<close> starts from the first item and replaces the current maximum by a later
  item only when \<open>comparison(item, max)\<close> holds; on an empty collection it returns the
  zero value of the item type.
\<close>

fun MaxBy_loop :: "('a \<Rightarrow> 'a \<Rightarrow> bool) \<Rightarrow> 'a \<Rightarrow> 'a list \<Rightarrow> 'a" where
  "MaxBy_loop comparison mx [] = mx"
| "MaxBy_loop comparison mx (item # rest) =
     (if comparison item mx then MaxBy_loop comparison item rest
      else MaxBy_loop comparison mx rest)"

definition MaxBy :: "'a \<Rightarrow> ('a \<Rightarrow> 'a \<Rightarrow> bool) \<Rightarrow> 'a list \<Rightarrow> 'a" where
  "MaxBy zero comparison collection =
     (case collection of [] \<Rightarrow> zero | first # rest \<Rightarrow> MaxBy_loop comparison first rest)"

section \<open>The payment reducer of main\<close>

definition filteredPayments :: "Payment list \<Rightarrow> Payment list" where
  "filteredPayments payments =
     filter (\<lambda>payment. OrderFormSlug payment = ''cotisation-annuelle''
                      \<or> OrderFormSlug payment = ''annual-membership-fee'') payments"

text \<open>
  \<open>latestPayment\<close> is the function that main hands to \<open>lo.MapValues\<close>: \<open>lo.MaxBy\<close> with
  the comparison \<open>p1.OrderDate.After(p2.OrderDate)\<close>.
\<close>

definition latestPayment :: "Payment list \<Rightarrow> Payment" where
  "latestPayment payments = MaxBy zeroPayment (\<lambda>p1 p2. After (OrderDate p1) (OrderDate p2)) payments"

definition uniquePayments :: "Payment list \<Rightarrow> Payment list" where
  "uniquePayments payments =
     Values (MapValues (\<lambda>group _. latestPayment group)
       (GroupBy PayerEmail (filteredPayments payments)))"


section \<open>baserow: members and their extraction from table rows\<close>

text \<open>
  The struct \<open>Member\<close> as \<open>services/baserow/baserow.go\<close> declares it.
\<close>

record MemberBase =
  Id :: go_int
  Surname :: string
  FirstName :: string
  Email :: string
  ActiveMembership :: bool
  LastPaymentDate :: Time
  LastContributionEmailDate :: Time
  NumberContributionsEmail :: go_int
  MembershipType :: go_int
  PreferredLanguages :: "go_int list"

text \<open>
  main also reads \<open>member.AlternativeEmail1\<close>, \<open>member.AlternativeEmail2\<close> and
  \<open>member.Country\<close>. The declaration at hand is of a revision before these three fields
  were added; they are taken from main's use of them (all three are compared with string
  literals) and extend the declared struct.
\<close>

record Member = MemberBase +
  AlternativeEmail1 :: string
  AlternativeEmail2 :: string
  Country :: string

text \<open>
  A decoded JSON value, as \<open>encoding/json\<close> stores it in an \<open>interface{}\<close>: \<open>nil\<close>,
  \<open>bool\<close>, \<open>float64\<close>, \<open>string\<close>, \<open>[]interface{}\<close> or \<open>map[string]interface{}\<close>.
  A JSON number is a finite \<open>float64\<close>, hence a rational. A row of the table is such a
  map; a missing key reads as \<open>nil\<close>, which no type assertion accepts.
\<close>

datatype json =
    JNull
  | JBool bool
  | JNumber rat
  | JString string
  | JArray "json list"
  | JObject "string \<Rightarrow> json option"

type_synonym row = "string \<Rightarrow> json option"

text \<open>
  \<open>int(val)\<close> on a \<open>float64\<close> drops the fraction. For a value outside the range of
  \<open>int\<close> Go leaves the result to the implementation; the model wraps there.
\<close>

definition toInt :: "rat \<Rightarrow> go_int" where
  "toInt val = word_of_int (if 0 \<le> val then \<lfloor>val\<rfloor> else \<lceil>val\<rceil>)"

definition getStringValue :: "row \<Rightarrow> string \<Rightarrow> string" where
  "getStringValue data key = (case data key of Some (JString val) \<Rightarrow> val | _ \<Rightarrow> [])"

definition getSelectId :: "row \<Rightarrow> string \<Rightarrow> go_int" where
  "getSelectId data key =
     (case data key of
        Some (JObject val) \<Rightarrow> (case val ''id'' of Some (JNumber idv) \<Rightarrow> toInt idv | _ \<Rightarrow> 0)
      | _ \<Rightarrow> 0)"

definition getBoolValue :: "row \<Rightarrow> string \<Rightarrow> bool" where
  "getBoolValue data key = (case data key of Some (JBool val) \<Rightarrow> val | _ \<Rightarrow> False)"

definition getIntValue :: "row \<Rightarrow> string \<Rightarrow> go_int" where
  "getIntValue data key = (case data key of Some (JNumber val) \<Rightarrow> toInt val | _ \<Rightarrow> 0)"

fun multiSelectLoop :: "json list \<Rightarrow> go_int list \<Rightarrow> go_int list" where
  "multiSelectLoop [] ids = ids"
| "multiSelectLoop (item # rest) ids =
     (case item of
        JObject itemMap \<Rightarrow>
          (case itemMap ''id'' of
             Some (JNumber idv) \<Rightarrow> multiSelectLoop rest (ids @ [toInt idv])
           | _ \<Rightarrow> multiSelectLoop rest ids)
      | _ \<Rightarrow> multiSelectLoop rest ids)"

definition getMultiSelectIds :: "row \<Rightarrow> string \<Rightarrow> go_int list" where
  "getMultiSelectIds data key =
     (case data key of Some (JArray val) \<Rightarrow> multiSelectLoop val [] | _ \<Rightarrow> [])"

text \<open>
  The two date columns: the field keeps the zero time of the composite literal unless the
  column holds a non-empty string that \<open>time.Parse("2006-01-02", dateStr)\<close> accepts.
  \<open>time.Parse\<close> belongs to the standard library and is a parameter \<open>parse\<close> here
  (\<open>None\<close> when it returns an error).
\<close>

definition getDateValue :: "(string \<Rightarrow> Time option) \<Rightarrow> row \<Rightarrow> string \<Rightarrow> Time" where
  "getDateValue parse result key =
     (case result key of
        Some (JString dateStr) \<Rightarrow>
          (if dateStr \<noteq> [] then (case parse dateStr of Some date \<Rightarrow> date | None \<Rightarrow> zeroTime)
           else zeroTime)
      | _ \<Rightarrow> zeroTime)"

text \<open>
  The body of the loop over \<open>baserowResp.Results\<close> in \<open>GetMembers\<close>. What fills the
  three later fields is not in the revision at hand; \<open>extra\<close> stands for it.
\<close>

definition memberFromRow :: "(string \<Rightarrow> Time option) \<Rightarrow> (row \<Rightarrow> 'a) \<Rightarrow> row \<Rightarrow> 'a MemberBase_scheme" where
  "memberFromRow parse extra result =
     \<lparr>Id = getIntValue result ''Id'',
      Surname = getStringValue result ''Surname'',
      FirstName = getStringValue result ''First name'',
      Email = getStringValue result ''E-mail'',
      ActiveMembership = getBoolValue result ''Active MemberShip'',
      LastPaymentDate = getDateValue parse result ''Last Payment Date'',
      LastContributionEmailDate = getDateValue parse result ''Last Contribution Email Date'',
      NumberContributionsEmail = getIntValue result ''Number of Contributions Email'',
      MembershipType = getSelectId result ''Membership type'',
      PreferredLanguages = getMultiSelectIds result ''Preferred languages'',
      \<dots> = extra result\<rparr>"

definition membersOfPage :: "(string \<Rightarrow> Time option) \<Rightarrow> (row \<Rightarrow> 'a) \<Rightarrow> row list \<Rightarrow> 'a MemberBase_scheme list" where
  "membersOfPage parse extra results = map (memberFromRow parse extra) results"


section \<open>main\<close>

definition IndividualTypeId :: go_int where "IndividualTypeId = 2521"
definition OrganizationTypeId :: go_int where "OrganizationTypeId = 2520"
definition EnglishId :: go_int where "EnglishId = 2590"
definition FrenchId :: go_int where "FrenchId = 2591"
definition SpanishId :: go_int where "SpanishId = 2592"

record MemberPaymentPair =
  Member :: Member
  Payment :: Payment

subsection \<open>The index of members and the matched pairs\<close>

text \<open>
  The accumulator function that main hands to \<open>lo.Reduce\<close>: the primary e-mail is always
  stored, an alternative one only when it is not empty; a later store under the same key
  replaces the earlier one.
\<close>

definition indexMember :: "(string \<rightharpoonup> Member) \<Rightarrow> Member \<Rightarrow> (string \<rightharpoonup> Member)" where
  "indexMember acc member =
     (let acc1 = acc(Email member \<mapsto> member);
          acc2 = (if AlternativeEmail1 member \<noteq> [] then acc1(AlternativeEmail1 member \<mapsto> member) else acc1);
          acc3 = (if AlternativeEmail2 member \<noteq> [] then acc2(AlternativeEmail2 member \<mapsto> member) else acc2)
      in acc3)"

definition membersByEmail :: "Member list \<Rightarrow> (string \<rightharpoonup> Member)" where
  "membersByEmail members = foldl indexMember Map.empty members"

text \<open>
  The keys under which \<open>indexMember\<close> stores a member: its primary e-mail, and each
  alternative e-mail that is not empty.
\<close>

definition indexedUnder :: "Member \<Rightarrow> string \<Rightarrow> bool" where
  "indexedUnder member e =
     (e = Email member
      \<or> (AlternativeEmail1 member \<noteq> [] \<and> e = AlternativeEmail1 member)
      \<or> (AlternativeEmail2 member \<noteq> [] \<and> e = AlternativeEmail2 member))"

text \<open>\<open>lo.FilterMap\<close> keeps, in order, the results of the payments whose payer is indexed.\<close>

definition membersWithPayment :: "(string \<rightharpoonup> Member) \<Rightarrow> Payment list \<Rightarrow> MemberPaymentPair list" where
  "membersWithPayment index payments =
     List.map_filter (\<lambda>payment.
        case index (PayerEmail payment) of
          None \<Rightarrow> None
        | Some member \<Rightarrow> Some \<lparr>Member = member, Payment = payment\<rparr>) payments"

subsection \<open>The two lists that main filters out of the matched pairs\<close>

text \<open>
  \<open>oneYearAgo\<close> is the value of \<open>time.Now().AddDate(-1, 0, 0)\<close>, which main reads once;
  the clock and the calendar arithmetic of the standard library are outside the model.
\<close>

definition paymentNeeded :: "Time \<Rightarrow> MemberPaymentPair \<Rightarrow> bool" where
  "paymentNeeded oneYearAgo pair = Before (OrderDate (Payment pair)) oneYearAgo"

definition statusUpdateNeeded :: "Time \<Rightarrow> MemberPaymentPair \<Rightarrow> bool" where
  "statusUpdateNeeded oneYearAgo pair =
     (\<not> Before (OrderDate (Payment pair)) oneYearAgo \<and>
      (ActiveMembership (Member pair) = False \<or>
       FormatDay (LastPaymentDate (Member pair)) \<noteq> FormatDay (OrderDate (Payment pair))))"

definition membersToUpdatePaymentNeeded :: "Time \<Rightarrow> MemberPaymentPair list \<Rightarrow> MemberPaymentPair list" where
  "membersToUpdatePaymentNeeded oneYearAgo pairs = filter (paymentNeeded oneYearAgo) pairs"

definition membersToUpdateStatusUpdate :: "Time \<Rightarrow> MemberPaymentPair list \<Rightarrow> MemberPaymentPair list" where
  "membersToUpdateStatusUpdate oneYearAgo pairs = filter (statusUpdateNeeded oneYearAgo) pairs"

subsection \<open>toCamelCase\<close>

text \<open>
  \<open>strings.Fields\<close>, \<open>unicode.ToUpper\<close> and \<open>unicode.ToLower\<close> work on runes with the
  Unicode tables of the standard library. The model covers ASCII text, where a rune is one
  byte: it splits at the six ASCII white-space characters and changes the case of the
  letters a to z only. No theorem below depends on how a name is capitalised.
\<close>

definition isSpace :: "char \<Rightarrow> bool" where
  "isSpace c = (c \<in> set [CHR 0x09, CHR 0x0A, CHR 0x0B, CHR 0x0C, CHR 0x0D, CHR 0x20])"

fun FieldsFrom :: "string \<Rightarrow> string \<Rightarrow> string list" where
  "FieldsFrom word [] = (if word = [] then [] else [word])"
| "FieldsFrom word (c # cs) =
     (if isSpace c then (if word = [] then FieldsFrom [] cs else word # FieldsFrom [] cs)
      else FieldsFrom (word @ [c]) cs)"

definition Fields :: "string \<Rightarrow> string list" where
  "Fields s = FieldsFrom [] s"

fun Join :: "string list \<Rightarrow> string \<Rightarrow> string" where
  "Join [] sep = []"
| "Join [w] sep = w"
| "Join (w # ws) sep = w @ sep @ Join ws sep"

definition ToUpper :: "char \<Rightarrow> char" where
  "ToUpper c =
     (case map_of (zip ''abcdefghijklmnopqrstuvwxyz'' ''ABCDEFGHIJKLMNOPQRSTUVWXYZ'') c of
        Some upper \<Rightarrow> upper
      | None \<Rightarrow> c)"

definition ToLower :: "char \<Rightarrow> char" where
  "ToLower c =
     (case map_of (zip ''ABCDEFGHIJKLMNOPQRSTUVWXYZ'' ''abcdefghijklmnopqrstuvwxyz'') c of
        Some lower \<Rightarrow> lower
      | None \<Rightarrow> c)"

definition toCamelCase :: "string \<Rightarrow> string" where
  "toCamelCase s =
     (if s = [] then s
      else Join (map (\<lambda>word. case word of [] \<Rightarrow> [] | r # runes \<Rightarrow> ToUpper r # map ToLower runes)
                  (Fields s)) '' '')"

subsection \<open>The reminder e-mail\<close>

record EmailData =
  SenderName :: string
  SenderEmail :: string
  ToEmail :: string
  ToName :: string
  Subject :: string
  HtmlContent :: string
  TextContent :: string

text \<open>
  \<open>sendEmailAndUpdate\<close> writes out two versions of the message, a French and an English
  one. Each is a subject line and two bodies in which the capitalised first name and the
  contribution link stand between fixed pieces of prose. The prose is not spelled out
  here: a \<open>Template\<close> holds the fixed pieces of one version, and the two versions are
  parameters.
\<close>

record Template =
  subjectLine :: string
  htmlUpToName :: string
  htmlUpToLink :: string
  htmlRest :: string
  textUpToName :: string
  textUpToLink :: string
  textRest :: string

record Prose =
  french :: Template
  english :: Template

fun languageLoop :: "go_int list \<Rightarrow> bool" where
  "languageLoop [] = False"
| "languageLoop (langId # rest) = (if langId = FrenchId then True else languageLoop rest)"

definition isFrench :: "Member \<Rightarrow> bool" where
  "isFrench member =
     (let isFrench0 = languageLoop (PreferredLanguages member)
      in if \<not> isFrench0 \<and> Country member = ''France'' then True else isFrench0)"

definition contributionLink :: "Member \<Rightarrow> string" where
  "contributionLink member =
     (if isFrench member
      then ''https://www.helloasso.com/associations/boavizta/adhesions/cotisation-annuelle''
      else ''https://www.helloasso.com/associations/boavizta/adhesions/annual-membership-fee'')"

definition emailData :: "Prose \<Rightarrow> Member \<Rightarrow> EmailData" where
  "emailData prose member =
     (let t = (if isFrench member then french prose else english prose)
      in \<lparr>SenderName = ''Boavizta'',
          SenderEmail = ''no-reply@boavizta.org'',
          ToEmail = Email member,
          ToName = toCamelCase (FirstName member) @ '' '' @ Surname member,
          Subject = subjectLine t,
          HtmlContent = htmlUpToName t @ toCamelCase (FirstName member) @ htmlUpToLink t
                          @ contributionLink member @ htmlRest t,
          TextContent = textUpToName t @ toCamelCase (FirstName member) @ textUpToLink t
                          @ contributionLink member @ textRest t\<rparr>)"

subsection \<open>Calls to the two services\<close>

text \<open>
  What the program does to the outside is the sequence of its calls to \<open>brevo.SendEmail\<close>
  and \<open>baserow.UpdateMember\<close>, each with its argument. Log lines are left out, and with
  them the result of \<open>UpdateMember\<close>, which is only logged.

  A \<open>Moment\<close> holds what the environment answers while one pair is handled: the value of
  \<open>time.Now().AddDate(0, 0, -14)\<close> at the guard, the error that \<open>brevo.SendEmail\<close>
  returns (\<open>None\<close> for \<open>nil\<close>), and the value of \<open>time.Now()\<close> after a send. The
  clock is read anew for every pair, so a run has one moment per pair.
\<close>

datatype Call = SendEmail EmailData | UpdateMember Member

record Moment =
  twoWeeksAgo :: Time
  sendError :: "string option"
  now :: Time

definition sendEmailAndUpdate :: "Prose \<Rightarrow> Moment \<Rightarrow> MemberPaymentPair \<Rightarrow> Call list" where
  "sendEmailAndUpdate prose moment pair =
     (let member = (Member pair)\<lparr>ActiveMembership := False,
                                  LastPaymentDate := OrderDate (Payment pair)\<rparr>;
          email = emailData prose member
      in if Before (LastContributionEmailDate member) (twoWeeksAgo moment) then
           (case sendError moment of
              Some err \<Rightarrow> [SendEmail email, UpdateMember member]
            | None \<Rightarrow>
                [SendEmail email,
                 UpdateMember (member\<lparr>LastContributionEmailDate := now moment,
                                       NumberContributionsEmail := NumberContributionsEmail member + 1\<rparr>)])
         else [])"

definition updateValidMembers :: "MemberPaymentPair \<Rightarrow> Call list" where
  "updateValidMembers pair =
     [UpdateMember ((Member pair)\<lparr>ActiveMembership := True,
                                   LastPaymentDate := OrderDate (Payment pair),
                                   NumberContributionsEmail := 0\<rparr>)]"

text \<open>
  main takes the answers of \<open>helloasso.GetPayments\<close> and \<open>baserow.GetMembers\<close>
  (\<open>Inl\<close> for an error, on which main leaves with \<open>os.Exit(1)\<close>), reminds the pairs of
  the first list in order and then updates the pairs of the second. \<open>generateStats\<close> only
  logs counts and is left out.
\<close>

datatype Outcome = Exit nat | Completed "Call list"

definition main :: "Prose \<Rightarrow> Time \<Rightarrow> (MemberPaymentPair \<Rightarrow> Moment)
    \<Rightarrow> string + Payment list \<Rightarrow> string + Member list \<Rightarrow> Outcome" where
  "main prose oneYearAgo moment gotPayments gotMembers =
     (case gotPayments of
        Inl err \<Rightarrow> Exit 1
      | Inr payments \<Rightarrow>
          (case gotMembers of
             Inl err \<Rightarrow> Exit 1
           | Inr members \<Rightarrow>
               (let pairs = membersWithPayment (membersByEmail members) (uniquePayments payments);
                    needed = membersToUpdatePaymentNeeded oneYearAgo pairs;
                    status = membersToUpdateStatusUpdate oneYearAgo pairs
                in Completed (concat (map (\<lambda>pair. sendEmailAndUpdate prose (moment pair) pair) needed)
                              @ concat (map updateValidMembers status)))))"

section \<open>Notions of the specification\<close>

text \<open>
  The specification sorts every matched pair into one of three classes by a single
  threshold, "now minus one year". This is its wording, to be compared with the two
  filters of main.
\<close>

datatype Classification = NeedsReminder | NeedsStatusUpdate | NoAction

definition spec_classification :: "Time \<Rightarrow> MemberPaymentPair \<Rightarrow> Classification" where
  "spec_classification threshold pair =
     (if instant (OrderDate (Payment pair)) < instant threshold then NeedsReminder
      else if \<not> ActiveMembership (Member pair)
              \<or> FormatDay (LastPaymentDate (Member pair)) \<noteq> FormatDay (OrderDate (Payment pair))
           then NeedsStatusUpdate
      else NoAction)"


section \<open>Sample data\<close>

text \<open>
  A small world on which the theorems are run: three members, their payments, the clock
  of one run and the answers of the e-mail service. \<open>dayTime d\<close> is midnight UTC of day
  \<open>d\<close>; the run takes place on day 739000.
\<close>

definition dayTime :: "int \<Rightarrow> Time" where
  "dayTime d = \<lparr>instant = d * 86400000000000, zoneOffset = 0\<rparr>"

definition sampleYearAgo :: Time where
  "sampleYearAgo = dayTime 738635"

definition sampleMoment :: Moment where
  "sampleMoment = \<lparr>twoWeeksAgo = dayTime 738986, sendError = None, now = dayTime 739000\<rparr>"

definition failingMoment :: Moment where
  "failingMoment = \<lparr>twoWeeksAgo = dayTime 738986, sendError = Some ''status code: 503'',
     now = dayTime 739000\<rparr>"

definition sampleMoments :: "MemberPaymentPair \<Rightarrow> Moment" where
  "sampleMoments pair = sampleMoment"

definition sampleProse :: Prose where
  "sampleProse =
     \<lparr>french = \<lparr>subjectLine = ''Il est temps de renouveler'', htmlUpToName = ''<p>Cher(e) '',
                 htmlUpToLink = '',</p><a href='', htmlRest = ''>ici</a>'',
                 textUpToName = ''Cher(e) '', textUpToLink = '', cliquez ici : '', textRest = ''.''\<rparr>,
      english = \<lparr>subjectLine = ''It is time to renew'', htmlUpToName = ''<p>Dear '',
                 htmlUpToLink = '',</p><a href='', htmlRest = ''>here</a>'',
                 textUpToName = ''Dear '', textUpToLink = '', click here: '', textRest = ''.''\<rparr>\<rparr>"

text \<open>
  Anne has three addresses, lives in France, prefers English (2590) and was reminded
  yesterday. Bob and Chloe were never reminded; Chloe lists French (2591) among her
  languages, Bob's only address is Anne's second alternative one. Dan has one alternative
  address, which is Anne's first.
\<close>

definition anne :: Member where
  "anne = \<lparr>Id = 7, Surname = ''Martin'', FirstName = ''anne marie'', Email = ''a@x.org'',
     ActiveMembership = True, LastPaymentDate = dayTime 738000,
     LastContributionEmailDate = dayTime 738999, NumberContributionsEmail = 3,
     MembershipType = 2521, PreferredLanguages = [2590],
     AlternativeEmail1 = ''b@x.org'', AlternativeEmail2 = ''c@x.org'', Country = ''France''\<rparr>"

definition bob :: Member where
  "bob = \<lparr>Id = 8, Surname = ''Stone'', FirstName = ''bob'', Email = ''c@x.org'',
     ActiveMembership = False, LastPaymentDate = zeroTime,
     LastContributionEmailDate = zeroTime, NumberContributionsEmail = 0,
     MembershipType = 2520, PreferredLanguages = [],
     AlternativeEmail1 = [], AlternativeEmail2 = [], Country = ''Spain''\<rparr>"

definition chloe :: Member where
  "chloe = \<lparr>Id = 9, Surname = ''Dubois'', FirstName = ''CHLOE'', Email = ''d@x.org'',
     ActiveMembership = True, LastPaymentDate = dayTime 738050,
     LastContributionEmailDate = zeroTime, NumberContributionsEmail = 0,
     MembershipType = 2521, PreferredLanguages = [2590, 2591],
     AlternativeEmail1 = [], AlternativeEmail2 = [], Country = ''Belgium''\<rparr>"

definition dan :: Member where
  "dan = \<lparr>Id = 10, Surname = ''Petit'', FirstName = ''dan'', Email = ''f@x.org'',
     ActiveMembership = True, LastPaymentDate = dayTime 738900,
     LastContributionEmailDate = zeroTime, NumberContributionsEmail = 0,
     MembershipType = 2521, PreferredLanguages = [],
     AlternativeEmail1 = ''b@x.org'', AlternativeEmail2 = [], Country = ''Italy''\<rparr>"

definition payFirst :: Payment where
  "payFirst = \<lparr>OrderFormSlug = ''cotisation-annuelle'', OrderDate = dayTime 737800,
     PayerEmail = ''a@x.org'', PayerFirstName = ''Anne'', PayerLastName = ''Martin''\<rparr>"

definition payOld :: Payment where
  "payOld = \<lparr>OrderFormSlug = ''cotisation-annuelle'', OrderDate = dayTime 738200,
     PayerEmail = ''a@x.org'', PayerFirstName = ''Anne'', PayerLastName = ''Martin''\<rparr>"

definition payNew :: Payment where
  "payNew = \<lparr>OrderFormSlug = ''annual-membership-fee'', OrderDate = dayTime 738990,
     PayerEmail = ''b@x.org'', PayerFirstName = ''Anne'', PayerLastName = ''Martin''\<rparr>"

definition payBob :: Payment where
  "payBob = \<lparr>OrderFormSlug = ''annual-membership-fee'', OrderDate = dayTime 738100,
     PayerEmail = ''c@x.org'', PayerFirstName = ''Bob'', PayerLastName = ''Stone''\<rparr>"

definition payChloe :: Payment where
  "payChloe = \<lparr>OrderFormSlug = ''cotisation-annuelle'', OrderDate = dayTime 738050,
     PayerEmail = ''d@x.org'', PayerFirstName = ''Chloe'', PayerLastName = ''Dubois''\<rparr>"

text \<open>Two payments of one payer at the same instant, told apart by the first name.\<close>

definition payA :: Payment where
  "payA = \<lparr>OrderFormSlug = ''cotisation-annuelle'', OrderDate = dayTime 738300,
     PayerEmail = ''e@x.org'', PayerFirstName = ''first'', PayerLastName = ''Payer''\<rparr>"

definition payB :: Payment where
  "payB = \<lparr>OrderFormSlug = ''annual-membership-fee'', OrderDate = dayTime 738300,
     PayerEmail = ''e@x.org'', PayerFirstName = ''second'', PayerLastName = ''Payer''\<rparr>"

definition anneOld :: MemberPaymentPair where
  "anneOld = \<lparr>Member = anne, Payment = payOld\<rparr>"

definition anneNew :: MemberPaymentPair where
  "anneNew = \<lparr>Member = anne, Payment = payNew\<rparr>"

definition bobOld :: MemberPaymentPair where
  "bobOld = \<lparr>Member = bob, Payment = payBob\<rparr>"

definition chloeOld :: MemberPaymentPair where
  "chloeOld = \<lparr>Member = chloe, Payment = payChloe\<rparr>"

definition anneRenewed :: Member where
  "anneRenewed = anne\<lparr>ActiveMembership := True, LastPaymentDate := dayTime 738990,
     NumberContributionsEmail := 0\<rparr>"

definition bobMail :: EmailData where
  "bobMail = \<lparr>SenderName = ''Boavizta'', SenderEmail = ''no-reply@boavizta.org'',
     ToEmail = ''c@x.org'', ToName = ''Bob Stone'', Subject = ''It is time to renew'',
     HtmlContent = ''<p>Dear Bob,</p><a href=https://www.helloasso.com/associations/boavizta/adhesions/annual-membership-fee>here</a>'',
     TextContent = ''Dear Bob, click here: https://www.helloasso.com/associations/boavizta/adhesions/annual-membership-fee.''\<rparr>"

definition bobReminded :: Member where
  "bobReminded = bob\<lparr>ActiveMembership := False, LastPaymentDate := dayTime 738100,
     LastContributionEmailDate := dayTime 739000, NumberContributionsEmail := 1\<rparr>"

definition bobNotReached :: Member where
  "bobNotReached = bob\<lparr>ActiveMembership := False, LastPaymentDate := dayTime 738100\<rparr>"

definition chloeMail :: EmailData where
  "chloeMail = \<lparr>SenderName = ''Boavizta'', SenderEmail = ''no-reply@boavizta.org'',
     ToEmail = ''d@x.org'', ToName = ''Chloe Dubois'', Subject = ''Il est temps de renouveler'',
     HtmlContent = ''<p>Cher(e) Chloe,</p><a href=https://www.helloasso.com/associations/boavizta/adhesions/cotisation-annuelle>ici</a>'',
     TextContent = ''Cher(e) Chloe, cliquez ici : https://www.helloasso.com/associations/boavizta/adhesions/cotisation-annuelle.''\<rparr>"

definition chloeReminded :: Member where
  "chloeReminded = chloe\<lparr>ActiveMembership := False, LastPaymentDate := dayTime 738050,
     LastContributionEmailDate := dayTime 739000, NumberContributionsEmail := 1\<rparr>"

text \<open>
  Rows of the table: one whose columns hold values of other types than the extraction
  expects, and one of a member whose reminder date is the empty string. \<open>sampleParse\<close>
  accepts a single date.
\<close>

definition sampleParse :: "string \<Rightarrow> Time option" where
  "sampleParse s = (if s = ''2023-04-01'' then Some (dayTime 738200) else None)"

definition noExtra :: "row \<Rightarrow> unit" where
  "noExtra result = ()"

definition mistypedRow :: row where
  "mistypedRow =
     [''Id'' \<mapsto> JString ''8'', ''Surname'' \<mapsto> JNumber 5, ''E-mail'' \<mapsto> JBool True,
      ''Active MemberShip'' \<mapsto> JString ''true'', ''Last Payment Date'' \<mapsto> JNumber 20230401,
      ''Membership type'' \<mapsto> JNumber 2521, ''Preferred languages'' \<mapsto> JString ''fr'']"

definition bobRow :: row where
  "bobRow =
     [''Id'' \<mapsto> JNumber 8, ''Surname'' \<mapsto> JString ''Stone'', ''First name'' \<mapsto> JString ''bob'',
      ''E-mail'' \<mapsto> JString ''c@x.org'', ''Active MemberShip'' \<mapsto> JBool False,
      ''Last Payment Date'' \<mapsto> JString ''2023-04-01'',
      ''Last Contribution Email Date'' \<mapsto> JString [],
      ''Membership type'' \<mapsto> JObject [''id'' \<mapsto> JNumber 2520]]"

section \<open>The payment reducer: one latest payment per payer\<close>

subsection \<open>Grouping\<close>

lemma appendTo_keys:
  "map fst (appendTo k x acc) = (if k \<in> fst ` set acc then map fst acc else map fst acc @ [k])"
proof (induction acc)
  case Nil
  show ?case by simp
next
  case (Cons a acc)
  obtain k' g where a: "a = (k', g)" by (cases a)
  show ?case using Cons by (simp add: a)
qed

lemma appendTo_fresh: "k \<notin> fst ` set acc \<Longrightarrow> appendTo k x acc = acc @ [(k, [x])]"
  by (induction acc) auto

lemma map_of_appendTo:
  "map_of (appendTo k x acc) k' =
     (if k' = k then Some ((case map_of acc k of None \<Rightarrow> [] | Some g \<Rightarrow> g) @ [x])
      else map_of acc k')"
  by (induction acc) auto

lemma GroupBy_snoc: "GroupBy f (xs @ [x]) = appendTo (f x) x (GroupBy f xs)"
  by (simp add: GroupBy_def)

lemma GroupBy_Nil: "GroupBy f [] = []"
  by (simp add: GroupBy_def)

lemma GroupBy_keys_set: "fst ` set (GroupBy f xs) = f ` set xs"
proof (induction xs rule: rev_induct)
  case Nil
  show ?case by (simp add: GroupBy_Nil)
next
  case (snoc x xs)
  have "set (map fst (GroupBy f (xs @ [x]))) = insert (f x) (fst ` set (GroupBy f xs))"
    unfolding GroupBy_snoc appendTo_keys by auto
  with snoc show ?case by auto
qed

lemma GroupBy_keys_distinct: "distinct (map fst (GroupBy f xs))"
proof (induction xs rule: rev_induct)
  case Nil
  show ?case by (simp add: GroupBy_Nil)
next
  case (snoc x xs)
  then show ?case
    unfolding GroupBy_snoc appendTo_keys by auto
qed

lemma map_of_GroupBy:
  "map_of (GroupBy f xs) k =
     (if k \<in> f ` set xs then Some (filter (\<lambda>x. f x = k) xs) else None)"
proof (induction xs rule: rev_induct)
  case Nil
  show ?case by (simp add: GroupBy_Nil)
next
  case (snoc x xs)
  show ?case
  proof (cases "k = f x")
    case True
    show ?thesis
    proof (cases "f x \<in> f ` set xs")
      case True
      with snoc \<open>k = f x\<close> show ?thesis
        unfolding GroupBy_snoc map_of_appendTo by simp
    next
      case False
      then have "filter (\<lambda>y. f y = f x) xs = []"
        by (induction xs) auto
      with False snoc \<open>k = f x\<close> show ?thesis
        unfolding GroupBy_snoc map_of_appendTo by simp
    qed
  next
    case False
    with snoc show ?thesis
      unfolding GroupBy_snoc map_of_appendTo by auto
  qed
qed

lemma GroupBy_group:
  assumes "(k, g) \<in> set (GroupBy f xs)"
  shows "g = filter (\<lambda>x. f x = k) xs" and "k \<in> f ` set xs"
proof -
  have "map_of (GroupBy f xs) k = Some g"
    using assms GroupBy_keys_distinct [of f xs] by simp
  then show "g = filter (\<lambda>x. f x = k) xs" and "k \<in> f ` set xs"
    by (auto simp: map_of_GroupBy split: if_splits)
qed

lemma GroupBy_distinct_keys:
  "distinct (map f xs) \<Longrightarrow> GroupBy f xs = map (\<lambda>x. (f x, [x])) xs"
proof (induction xs rule: rev_induct)
  case Nil
  show ?case by (simp add: GroupBy_Nil)
next
  case (snoc x xs)
  then have "f x \<notin> fst ` set (GroupBy f xs)"
    by (auto simp: GroupBy_keys_set)
  with snoc show ?case
    unfolding GroupBy_snoc by (simp add: appendTo_fresh)
qed

subsection \<open>The maximum of a group\<close>

lemma MaxBy_loop_first_max:
  fixes mx :: Payment
  defines "cmp \<equiv> (\<lambda>p1 p2. After (OrderDate p1) (OrderDate p2))"
  shows "\<exists>pre post. mx # xs = pre @ MaxBy_loop cmp mx xs # post
     \<and> (\<forall>q \<in> set pre. Before (OrderDate q) (OrderDate (MaxBy_loop cmp mx xs)))
     \<and> (\<forall>q \<in> set post. \<not> After (OrderDate q) (OrderDate (MaxBy_loop cmp mx xs)))"
proof (induction xs arbitrary: mx)
  case Nil
  show ?case by (intro exI [of _ "[]"]) simp
next
  case (Cons item rest)
  show ?case
  proof (cases "After (OrderDate item) (OrderDate mx)")
    case True
    define r where "r = MaxBy_loop cmp item rest"
    have res: "MaxBy_loop cmp mx (item # rest) = r"
      using True by (simp add: r_def cmp_def)
    obtain pre post where d: "item # rest = pre @ r # post"
      and pre: "\<forall>q \<in> set pre. Before (OrderDate q) (OrderDate r)"
      and post: "\<forall>q \<in> set post. \<not> After (OrderDate q) (OrderDate r)"
      using Cons.IH [of item] unfolding r_def by blast
    have "instant (OrderDate item) \<le> instant (OrderDate r)"
    proof (cases pre)
      case Nil
      with d show ?thesis by simp
    next
      case (Cons a pre')
      with d pre show ?thesis by (simp add: Before_def)
    qed
    with True have "Before (OrderDate mx) (OrderDate r)"
      by (simp add: Before_def After_def)
    with pre have pre': "\<forall>q \<in> set (mx # pre). Before (OrderDate q) (OrderDate r)"
      by simp
    have "mx # item # rest = (mx # pre) @ r # post"
      using d by simp
    with pre' post show ?thesis
      unfolding res by blast
  next
    case False
    define r where "r = MaxBy_loop cmp mx rest"
    have res: "MaxBy_loop cmp mx (item # rest) = r"
      using False by (simp add: r_def cmp_def)
    obtain pre post where d: "mx # rest = pre @ r # post"
      and pre: "\<forall>q \<in> set pre. Before (OrderDate q) (OrderDate r)"
      and post: "\<forall>q \<in> set post. \<not> After (OrderDate q) (OrderDate r)"
      using Cons.IH [of mx] unfolding r_def by blast
    show ?thesis
    proof (cases pre)
      case Nil
      with d have "r = mx" "post = rest" by simp_all
      with False post have "\<forall>q \<in> set (item # rest). \<not> After (OrderDate q) (OrderDate r)"
        by simp
      moreover have "mx # item # rest = [] @ r # (item # rest)"
        using \<open>r = mx\<close> by simp
      ultimately show ?thesis
        unfolding res by (metis empty_iff list.set(1))
    next
      case (Cons a pre')
      with d have a: "a = mx" and r: "rest = pre' @ r # post" by simp_all
      have "Before (OrderDate mx) (OrderDate r)"
        using pre Cons a by simp
      with False have "Before (OrderDate item) (OrderDate r)"
        by (simp add: Before_def After_def)
      with pre Cons a have "\<forall>q \<in> set (mx # item # pre'). Before (OrderDate q) (OrderDate r)"
        by simp
      moreover have "mx # item # rest = (mx # item # pre') @ r # post"
        using r by simp
      ultimately show ?thesis
        unfolding res using post by blast
    qed
  qed
qed


lemma latestPayment_first_max:
  assumes "g \<noteq> []"
  shows "\<exists>pre post. g = pre @ latestPayment g # post
     \<and> (\<forall>q \<in> set pre. Before (OrderDate q) (OrderDate (latestPayment g)))
     \<and> (\<forall>q \<in> set post. \<not> After (OrderDate q) (OrderDate (latestPayment g)))"
proof -
  obtain x xs where g: "g = x # xs" using assms by (cases g) auto
  show ?thesis
    using MaxBy_loop_first_max [of x xs]
    by (simp add: g latestPayment_def MaxBy_def)
qed

lemma latestPayment_mem: "g \<noteq> [] \<Longrightarrow> latestPayment g \<in> set g"
  using latestPayment_first_max [of g] by (metis in_set_conv_decomp)

lemma latestPayment_max:
  assumes "q \<in> set g"
  shows "instant (OrderDate q) \<le> instant (OrderDate (latestPayment g))"
proof -
  have "g \<noteq> []" using assms by auto
  then obtain pre post where d: "g = pre @ latestPayment g # post"
    and pre: "\<forall>q \<in> set pre. Before (OrderDate q) (OrderDate (latestPayment g))"
    and post: "\<forall>q \<in> set post. \<not> After (OrderDate q) (OrderDate (latestPayment g))"
    using latestPayment_first_max by blast
  have "q \<in> set pre \<or> q = latestPayment g \<or> q \<in> set post"
    using assms by (subst (asm) d) auto
  with pre post show ?thesis
    by (auto simp: Before_def After_def)
qed

subsection \<open>The reduced list\<close>

lemma uniquePayments_map:
  "uniquePayments payments =
     map (\<lambda>(k, g). latestPayment g) (GroupBy PayerEmail (filteredPayments payments))"
  by (simp add: uniquePayments_def Values_def MapValues_def case_prod_beta)

lemma uniquePayments_elem:
  assumes "r \<in> set (uniquePayments payments)"
  shows "r = latestPayment (filter (\<lambda>p. PayerEmail p = PayerEmail r) (filteredPayments payments))"
    and "r \<in> set (filteredPayments payments)"
proof -
  let ?fp = "filteredPayments payments"
  obtain k g where kg: "(k, g) \<in> set (GroupBy PayerEmail ?fp)" and r: "r = latestPayment g"
    using assms by (auto simp: uniquePayments_map)
  have g: "g = filter (\<lambda>p. PayerEmail p = k) ?fp" and k: "k \<in> PayerEmail ` set ?fp"
    using GroupBy_group [OF kg] by simp_all
  have "g \<noteq> []" using g k by (auto simp: filter_empty_conv)
  then have mem: "r \<in> set g" using r latestPayment_mem by simp
  then have "PayerEmail r = k" using g by simp
  with r g show "r = latestPayment (filter (\<lambda>p. PayerEmail p = PayerEmail r) ?fp)" by simp
  show "r \<in> set ?fp" using mem g by simp
qed

lemma uniquePayments_emails:
  "map PayerEmail (uniquePayments payments) = map fst (GroupBy PayerEmail (filteredPayments payments))"
proof -
  let ?fp = "filteredPayments payments"
  have "PayerEmail (latestPayment g) = k" if "(k, g) \<in> set (GroupBy PayerEmail ?fp)" for k g
  proof -
    have g: "g = filter (\<lambda>p. PayerEmail p = k) ?fp" and k: "k \<in> PayerEmail ` set ?fp"
      using GroupBy_group [OF that] by simp_all
    have "g \<noteq> []" using g k by (auto simp: filter_empty_conv)
    then have "latestPayment g \<in> set g" by (rule latestPayment_mem)
    then show ?thesis using g by simp
  qed
  then show ?thesis
    by (auto simp: uniquePayments_map)
qed

lemma uniquePayments_distinct_emails: "distinct (map PayerEmail (uniquePayments payments))"
  by (simp only: uniquePayments_emails GroupBy_keys_distinct)

lemma distinct_map_filter_le_1:
  "distinct (map f xs) \<Longrightarrow> length (filter (\<lambda>x. f x = k) xs) \<le> 1"
  by (induction xs) (auto simp: filter_empty_conv image_iff)

lemma uniquePayments_fixpoint:
  assumes "distinct (map PayerEmail ys)" and "filteredPayments ys = ys"
  shows "uniquePayments ys = ys"
proof -
  have "map (\<lambda>(k, g). latestPayment g) (map (\<lambda>x. (PayerEmail x, [x])) ys) = ys"
    by (induction ys) (simp_all add: latestPayment_def MaxBy_def)
  then show ?thesis
    using assms by (simp add: uniquePayments_map GroupBy_distinct_keys)
qed

lemma filteredPayments_uniquePayments:
  "filteredPayments (uniquePayments payments) = uniquePayments payments"
proof -
  have "\<forall>r \<in> set (uniquePayments payments).
      OrderFormSlug r = ''cotisation-annuelle'' \<or> OrderFormSlug r = ''annual-membership-fee''"
    using uniquePayments_elem(2) by (auto simp: filteredPayments_def)
  then show ?thesis
    unfolding filteredPayments_def [of "uniquePayments payments"] by (simp only: filter_True)
qed


subsection \<open>The sample payments, reduced\<close>

lemma payment_fields:
  "PayerEmail payFirst = ''a@x.org''" "PayerEmail payOld = ''a@x.org''"
  "PayerEmail payNew = ''b@x.org''" "PayerEmail payBob = ''c@x.org''"
  "PayerEmail payChloe = ''d@x.org''"
  "OrderDate payFirst = dayTime 737800" "OrderDate payOld = dayTime 738200"
  "OrderDate payNew = dayTime 738990" "OrderDate payBob = dayTime 738100"
  "OrderDate payChloe = dayTime 738050"
  by (simp_all add: payFirst_def payOld_def payNew_def payBob_def payChloe_def)

lemmas reducer_defs = uniquePayments_def Values_def MapValues_def GroupBy_def filteredPayments_def
  latestPayment_def MaxBy_def After_def

lemma filtered_three: "filteredPayments [payFirst, payOld, payNew] = [payFirst, payOld, payNew]"
  by (simp add: filteredPayments_def payFirst_def payOld_def payNew_def)

lemma unique_three: "uniquePayments [payFirst, payOld, payNew] = [payOld, payNew]"
  by (simp add: reducer_defs payFirst_def payOld_def payNew_def dayTime_def)


lemma unique_new: "uniquePayments [payNew] = [payNew]"
  by (simp add: reducer_defs payNew_def)

lemma unique_old_bob_chloe: "uniquePayments [payOld, payBob, payChloe] = [payOld, payBob, payChloe]"
  by (simp add: reducer_defs payOld_def payBob_def payChloe_def dayTime_def)

lemma filtered_tie: "filteredPayments [payA, payB] = [payA, payB]"
  by (simp add: filteredPayments_def payA_def payB_def)

lemma unique_tie: "uniquePayments [payA, payB] = [payA]"
  by (simp add: reducer_defs payA_def payB_def)

lemma tie_fields:
  "PayerEmail payA = ''e@x.org''" "PayerEmail payB = ''e@x.org''"
  "OrderDate payA = dayTime 738300" "OrderDate payB = dayTime 738300"
  "PayerFirstName payA = ''first''" "PayerFirstName payB = ''second''"
  by (simp_all add: payA_def payB_def)

subsection \<open>C4: at most one payment per payer, and it is a latest one\<close>

text \<open>
  C4. For every list of payments and every payer e-mail, the reduced list holds at most
  one payment of that payer, and no payment of that payer among the filtered input is
  later than it.
\<close>

theorem uniquePayments_one_latest_per_email:
  "length (filter (\<lambda>p. PayerEmail p = email) (uniquePayments payments)) \<le> 1
   \<and> (\<forall>p \<in> set (uniquePayments payments). \<forall>q \<in> set (filteredPayments payments).
         PayerEmail p = email \<and> PayerEmail q = email
           \<longrightarrow> instant (OrderDate q) \<le> instant (OrderDate p))"
proof (intro conjI ballI impI)
  show "length (filter (\<lambda>p. PayerEmail p = email) (uniquePayments payments)) \<le> 1"
    using uniquePayments_distinct_emails by (rule distinct_map_filter_le_1)
next
  fix p q
  assume p: "p \<in> set (uniquePayments payments)" and q: "q \<in> set (filteredPayments payments)"
    and e: "PayerEmail p = email \<and> PayerEmail q = email"
  have "q \<in> set (filter (\<lambda>x. PayerEmail x = PayerEmail p) (filteredPayments payments))"
    using q e by simp
  then have "instant (OrderDate q)
      \<le> instant (OrderDate (latestPayment (filter (\<lambda>x. PayerEmail x = PayerEmail p) (filteredPayments payments))))"
    by (rule latestPayment_max)
  then show "instant (OrderDate q) \<le> instant (OrderDate p)"
    using uniquePayments_elem(1) [OF p] by simp
qed

theorem uniquePayments_one_latest_per_email_witness:
  "length (filter (\<lambda>p. PayerEmail p = ''a@x.org'') (uniquePayments [payFirst, payOld, payNew])) \<le> 1
   \<and> payOld \<in> set (uniquePayments [payFirst, payOld, payNew])
   \<and> payFirst \<in> set (filteredPayments [payFirst, payOld, payNew])
   \<and> instant (OrderDate payFirst) \<le> instant (OrderDate payOld)"
proof -
  note t = uniquePayments_one_latest_per_email [of "''a@x.org''" "[payFirst, payOld, payNew]"]
  have p: "payOld \<in> set (uniquePayments [payFirst, payOld, payNew])"
    by (simp add: unique_three)
  have q: "payFirst \<in> set (filteredPayments [payFirst, payOld, payNew])"
    by (simp add: filtered_three)
  have "PayerEmail payOld = ''a@x.org'' \<and> PayerEmail payFirst = ''a@x.org''
      \<longrightarrow> instant (OrderDate payFirst) \<le> instant (OrderDate payOld)"
    using t p q by blast
  then have "instant (OrderDate payFirst) \<le> instant (OrderDate payOld)"
    by (simp add: payment_fields(1,2))
  with t p q show ?thesis by simp
qed

subsection \<open>C5: reducing twice\<close>

text \<open>
  C5. The reducer (filter by the two membership-fee slugs, group by payer e-mail, keep
  the payment of maximum order date in each group) is idempotent: reducing its own output
  yields the same payments, as a set and in number.
\<close>

theorem uniquePayments_idempotent:
  "set (uniquePayments (uniquePayments payments)) = set (uniquePayments payments)
   \<and> length (uniquePayments (uniquePayments payments)) = length (uniquePayments payments)"
  using uniquePayments_fixpoint [OF uniquePayments_distinct_emails filteredPayments_uniquePayments]
  by simp

theorem uniquePayments_idempotent_witness:
  "uniquePayments [payFirst, payOld, payNew] = [payOld, payNew]
   \<and> set (uniquePayments [payOld, payNew]) = {payOld, payNew}"
  using uniquePayments_idempotent [of "[payFirst, payOld, payNew]"]
  by (simp add: unique_three)

subsection \<open>C6: ties\<close>

text \<open>
  C6, as amended. In every group of filtered payments of one payer, the payment that
  survives is the first one of maximum order date in iteration order: every payment before
  it is strictly earlier, and no payment after it is later. When two or more payments
  share the maximum date, the first of them is returned, not the last.
\<close>

theorem uniquePayments_first_latest_wins:
  assumes "r \<in> set (uniquePayments payments)"
  shows "\<exists>pre post.
     filter (\<lambda>p. PayerEmail p = PayerEmail r) (filteredPayments payments) = pre @ r # post
     \<and> (\<forall>q \<in> set pre. Before (OrderDate q) (OrderDate r))
     \<and> (\<forall>q \<in> set post. \<not> After (OrderDate q) (OrderDate r))"
proof -
  let ?g = "filter (\<lambda>p. PayerEmail p = PayerEmail r) (filteredPayments payments)"
  have r: "r = latestPayment ?g" and "r \<in> set (filteredPayments payments)"
    using uniquePayments_elem [OF assms] by simp_all
  then have "?g \<noteq> []" by (auto simp: filter_empty_conv)
  from latestPayment_first_max [OF this] show ?thesis
    using r by simp
qed

theorem uniquePayments_first_latest_wins_witness:
  "payA \<in> set (uniquePayments [payA, payB])
   \<and> (\<exists>pre post.
        filter (\<lambda>p. PayerEmail p = PayerEmail payA) (filteredPayments [payA, payB]) = pre @ payA # post
        \<and> (\<forall>q \<in> set pre. Before (OrderDate q) (OrderDate payA))
        \<and> (\<forall>q \<in> set post. \<not> After (OrderDate q) (OrderDate payA)))"
proof -
  have mem: "payA \<in> set (uniquePayments [payA, payB])"
    by (simp add: unique_tie)
  from uniquePayments_first_latest_wins [OF mem] mem show ?thesis by simp
qed

text \<open>
  The claim as it stands, last seen wins, fails: of two payments of one payer at the same
  instant, the reducer keeps the first.
\<close>

theorem last_seen_wins_counterexample:
  "PayerEmail payA = PayerEmail payB \<and> OrderDate payA = OrderDate payB
   \<and> filteredPayments [payA, payB] = [payA, payB]
   \<and> uniquePayments [payA, payB] = [payA]
   \<and> payA \<noteq> payB"
proof -
  have "PayerFirstName payA \<noteq> PayerFirstName payB"
    by (simp add: tie_fields)
  then have "payA \<noteq> payB" by auto
  then show ?thesis
    by (simp add: tie_fields filtered_tie unique_tie)
qed

section \<open>The index, the matched pairs and their classes\<close>

subsection \<open>The sample members, indexed and matched\<close>

lemma anne_fields:
  "Id anne = 7" "Email anne = ''a@x.org''" "AlternativeEmail1 anne = ''b@x.org''"
  "AlternativeEmail2 anne = ''c@x.org''" "ActiveMembership anne = True"
  "LastPaymentDate anne = dayTime 738000" "LastContributionEmailDate anne = dayTime 738999"
  "NumberContributionsEmail anne = 3" "PreferredLanguages anne = [2590]"
  "Country anne = ''France''"
  by (simp_all add: anne_def)

lemma bob_fields:
  "Id bob = 8" "Email bob = ''c@x.org''" "AlternativeEmail1 bob = []" "AlternativeEmail2 bob = []"
  "ActiveMembership bob = False" "LastPaymentDate bob = zeroTime"
  "LastContributionEmailDate bob = zeroTime" "NumberContributionsEmail bob = 0"
  "PreferredLanguages bob = []" "Country bob = ''Spain''"
  "FirstName bob = ''bob''" "Surname bob = ''Stone''"
  by (simp_all add: bob_def)

lemma chloe_fields:
  "Id chloe = 9" "Email chloe = ''d@x.org''" "AlternativeEmail1 chloe = []"
  "AlternativeEmail2 chloe = []" "ActiveMembership chloe = True"
  "LastPaymentDate chloe = dayTime 738050" "LastContributionEmailDate chloe = zeroTime"
  "NumberContributionsEmail chloe = 0" "PreferredLanguages chloe = [2590, 2591]"
  "Country chloe = ''Belgium''" "FirstName chloe = ''CHLOE''" "Surname chloe = ''Dubois''"
  by (simp_all add: chloe_def)

lemma pair_fields:
  "Member anneOld = anne" "Payment anneOld = payOld" "Member anneNew = anne" "Payment anneNew = payNew"
  "Member bobOld = bob" "Payment bobOld = payBob" "Member chloeOld = chloe" "Payment chloeOld = payChloe"
  by (simp_all add: anneOld_def anneNew_def bobOld_def chloeOld_def)

lemma members_differ: "anne \<noteq> bob" "bob \<noteq> chloe" "anne \<noteq> chloe"
proof -
  have "Id anne \<noteq> Id bob" "Id bob \<noteq> Id chloe" "Id anne \<noteq> Id chloe"
    by (simp_all add: anne_fields bob_fields chloe_fields)
  then show "anne \<noteq> bob" "bob \<noteq> chloe" "anne \<noteq> chloe" by auto
qed

lemma pairs_anne:
  "membersWithPayment (membersByEmail [anne]) [payOld, payNew] = [anneOld, anneNew]"
  "membersWithPayment (membersByEmail [anne]) [payNew] = [anneNew]"
  by (simp_all add: membersWithPayment_def membersByEmail_def indexMember_def List.map_filter_def
      anne_fields payment_fields anneOld_def anneNew_def)

lemma pairs_all:
  "membersWithPayment (membersByEmail [anne, bob, chloe]) [payOld, payBob, payChloe]
   = [anneOld, bobOld, chloeOld]"
  by (simp add: membersWithPayment_def membersByEmail_def indexMember_def List.map_filter_def
      anne_fields bob_fields chloe_fields payment_fields anneOld_def bobOld_def chloeOld_def)

lemma sample_classes:
  "paymentNeeded sampleYearAgo anneOld" "\<not> statusUpdateNeeded sampleYearAgo anneOld"
  "\<not> paymentNeeded sampleYearAgo anneNew" "statusUpdateNeeded sampleYearAgo anneNew"
  "paymentNeeded sampleYearAgo bobOld" "\<not> statusUpdateNeeded sampleYearAgo bobOld"
  "paymentNeeded sampleYearAgo chloeOld" "\<not> statusUpdateNeeded sampleYearAgo chloeOld"
  by (simp_all add: paymentNeeded_def statusUpdateNeeded_def Before_def FormatDay_def
      pair_fields anne_fields payment_fields sampleYearAgo_def dayTime_def)

subsection \<open>C1: the two filters of main against the three classes\<close>

text \<open>
  C1. For every matched pair the classification is total and exclusive. The pair is in
  the list of reminders exactly when its order date is strictly before now minus one
  year; it is in the list of status updates exactly when its order date is on or after
  that threshold and the member is not active or the stored last payment date differs
  from the order date as a calendar day; it is in neither list exactly when it needs no
  action. The class is a function of the order date, the threshold and the stored state of
  the member, and no pair is in both lists.
\<close>

theorem classification_total_exclusive:
  "(pair \<in> set (membersToUpdatePaymentNeeded oneYearAgo pairs)
      \<longleftrightarrow> pair \<in> set pairs \<and> spec_classification oneYearAgo pair = NeedsReminder)
   \<and> (pair \<in> set (membersToUpdateStatusUpdate oneYearAgo pairs)
      \<longleftrightarrow> pair \<in> set pairs \<and> spec_classification oneYearAgo pair = NeedsStatusUpdate)
   \<and> (pair \<in> set pairs \<and> pair \<notin> set (membersToUpdatePaymentNeeded oneYearAgo pairs)
        \<and> pair \<notin> set (membersToUpdateStatusUpdate oneYearAgo pairs)
      \<longleftrightarrow> pair \<in> set pairs \<and> spec_classification oneYearAgo pair = NoAction)
   \<and> \<not> (paymentNeeded oneYearAgo pair \<and> statusUpdateNeeded oneYearAgo pair)"
  by (auto simp: membersToUpdatePaymentNeeded_def membersToUpdateStatusUpdate_def
      paymentNeeded_def statusUpdateNeeded_def spec_classification_def Before_def)

theorem classification_total_exclusive_witness:
  "anneOld \<in> set (membersToUpdatePaymentNeeded sampleYearAgo [anneOld, anneNew])
   \<and> spec_classification sampleYearAgo anneOld = NeedsReminder
   \<and> anneNew \<in> set (membersToUpdateStatusUpdate sampleYearAgo [anneOld, anneNew])
   \<and> spec_classification sampleYearAgo anneNew = NeedsStatusUpdate"
  using classification_total_exclusive [of anneOld sampleYearAgo "[anneOld, anneNew]"]
    classification_total_exclusive [of anneNew sampleYearAgo "[anneOld, anneNew]"]
  by (simp add: membersToUpdatePaymentNeeded_def membersToUpdateStatusUpdate_def sample_classes)

subsection \<open>C8: looking a member up under its three addresses\<close>

lemma indexMember_other:
  assumes "\<not> indexedUnder l e"
  shows "indexMember acc l e = acc e"
  using assms by (auto simp: indexMember_def indexedUnder_def Let_def)

lemma indexMember_own:
  assumes "indexedUnder m e"
  shows "indexMember acc m e = Some m"
  using assms by (auto simp: indexMember_def indexedUnder_def Let_def)

lemma foldl_indexMember_other:
  assumes "\<forall>l \<in> set ys. \<not> indexedUnder l e"
  shows "foldl indexMember acc ys e = acc e"
  using assms
proof (induction ys arbitrary: acc)
  case Nil
  show ?case by simp
next
  case (Cons l ys)
  then have "foldl indexMember (indexMember acc l) ys e = indexMember acc l e"
    by simp
  also have "\<dots> = acc e"
    using Cons.prems by (simp add: indexMember_other)
  finally show ?case by simp
qed

lemma index_last_store:
  assumes "indexedUnder m e" and "\<forall>l \<in> set later. \<not> indexedUnder l e"
  shows "membersByEmail (earlier @ m # later) e = Some m"
proof -
  have "membersByEmail (earlier @ m # later) e
      = foldl indexMember (indexMember (foldl indexMember Map.empty earlier) m) later e"
    by (simp add: membersByEmail_def)
  also have "\<dots> = indexMember (foldl indexMember Map.empty earlier) m e"
    using assms(2) by (rule foldl_indexMember_other)
  also have "\<dots> = Some m"
    using assms(1) by (rule indexMember_own)
  finally show ?thesis .
qed

lemma dan_fields:
  "Id dan = 10" "Email dan = ''f@x.org''" "AlternativeEmail1 dan = ''b@x.org''"
  "AlternativeEmail2 dan = []"
  by (simp_all add: dan_def)

text \<open>
  C8, as amended. For every list of members, a member with two non-empty alternative
  addresses is found in the index under each of its three addresses that no later member
  of the list is stored under; an address under which later members are stored leads to
  the last member of the list that is stored under it (the later store replaces the
  earlier one).
\<close>

theorem index_reachable_unless_overwritten:
  "(AlternativeEmail1 m \<noteq> [] \<and> AlternativeEmail2 m \<noteq> []
      \<and> (e = Email m \<or> e = AlternativeEmail1 m \<or> e = AlternativeEmail2 m)
      \<and> (\<forall>x \<in> set later. \<not> indexedUnder x e)
     \<longrightarrow> membersByEmail (earlier @ m # later) e = Some m)
   \<and> (indexedUnder l e \<and> (\<forall>x \<in> set rest. \<not> indexedUnder x e)
     \<longrightarrow> membersByEmail (earlier @ m # between @ l # rest) e = Some l)"
proof (intro conjI impI)
  assume a: "AlternativeEmail1 m \<noteq> [] \<and> AlternativeEmail2 m \<noteq> []
      \<and> (e = Email m \<or> e = AlternativeEmail1 m \<or> e = AlternativeEmail2 m)
      \<and> (\<forall>x \<in> set later. \<not> indexedUnder x e)"
  then have "indexedUnder m e"
    by (auto simp: indexedUnder_def)
  with a show "membersByEmail (earlier @ m # later) e = Some m"
    by (simp add: index_last_store)
next
  assume a: "indexedUnder l e \<and> (\<forall>x \<in> set rest. \<not> indexedUnder x e)"
  then have "membersByEmail ((earlier @ m # between) @ l # rest) e = Some l"
    by (intro index_last_store) simp_all
  then show "membersByEmail (earlier @ m # between @ l # rest) e = Some l"
    by simp
qed

theorem index_reachable_unless_overwritten_witness:
  "AlternativeEmail1 anne \<noteq> [] \<and> AlternativeEmail2 anne \<noteq> []
   \<and> membersByEmail [bob, anne, chloe] (Email anne) = Some anne
   \<and> membersByEmail [bob, anne, chloe] (AlternativeEmail1 anne) = Some anne
   \<and> membersByEmail [bob, anne, chloe] (AlternativeEmail2 anne) = Some anne
   \<and> indexedUnder dan (AlternativeEmail1 anne)
   \<and> membersByEmail [anne, chloe, dan] (AlternativeEmail1 anne) = Some dan"
proof -
  have alts: "AlternativeEmail1 anne \<noteq> [] \<and> AlternativeEmail2 anne \<noteq> []"
    by (simp add: anne_fields)
  have free: "\<forall>x \<in> set [chloe]. \<not> indexedUnder x (Email anne)"
    "\<forall>x \<in> set [chloe]. \<not> indexedUnder x (AlternativeEmail1 anne)"
    "\<forall>x \<in> set [chloe]. \<not> indexedUnder x (AlternativeEmail2 anne)"
    by (simp_all add: indexedUnder_def anne_fields chloe_fields)
  have later: "indexedUnder dan (AlternativeEmail1 anne)"
    by (simp add: indexedUnder_def anne_fields dan_fields)
  have "membersByEmail ([bob] @ anne # [chloe]) (Email anne) = Some anne"
    using index_reachable_unless_overwritten [of anne "Email anne" "[chloe]" "[bob]"] alts free(1)
    by blast
  moreover have "membersByEmail ([bob] @ anne # [chloe]) (AlternativeEmail1 anne) = Some anne"
    using index_reachable_unless_overwritten [of anne "AlternativeEmail1 anne" "[chloe]" "[bob]"]
      alts free(2) by blast
  moreover have "membersByEmail ([bob] @ anne # [chloe]) (AlternativeEmail2 anne) = Some anne"
    using index_reachable_unless_overwritten [of anne "AlternativeEmail2 anne" "[chloe]" "[bob]"]
      alts free(3) by blast
  moreover have "membersByEmail ([] @ anne # [chloe] @ dan # []) (AlternativeEmail1 anne) = Some dan"
    using index_reachable_unless_overwritten [of anne "AlternativeEmail1 anne" "[]" "[]" dan "[]" "[chloe]"]
      later by simp
  ultimately show ?thesis using alts later by simp
qed

text \<open>
  The claim as it stands fails when a later member carries one of the addresses: Anne has
  three addresses, and the third one leads to Bob, who is listed after her.
\<close>

theorem index_all_three_counterexample:
  "AlternativeEmail1 anne \<noteq> [] \<and> AlternativeEmail2 anne \<noteq> []
   \<and> membersByEmail [anne, bob] (AlternativeEmail2 anne) = Some bob \<and> bob \<noteq> anne"
  using members_differ(1)
  by (simp add: membersByEmail_def indexMember_def anne_fields bob_fields)

section \<open>Extraction of a member from a row\<close>

subsection \<open>C10: absent and mistyped columns\<close>

text \<open>
  C10. Extraction of the fields of a member from a decoded row has no failing branch: a
  column that is absent or holds a value of another JSON type than the one expected
  yields the zero value (empty string, false, 0, no ids, the zero time), every row of a
  page yields a member, and a row without usable columns yields the zero member.
\<close>

theorem extraction_total_with_defaults:
  "((\<forall>val. data key \<noteq> Some (JString val)) \<longrightarrow> getStringValue data key = [])
   \<and> ((\<forall>val. data key \<noteq> Some (JBool val)) \<longrightarrow> getBoolValue data key = False)
   \<and> ((\<forall>val. data key \<noteq> Some (JNumber val)) \<longrightarrow> getIntValue data key = 0)
   \<and> ((\<forall>obj idv. data key = Some (JObject obj) \<longrightarrow> obj ''id'' \<noteq> Some (JNumber idv))
        \<longrightarrow> getSelectId data key = 0)
   \<and> ((\<forall>items. data key \<noteq> Some (JArray items)) \<longrightarrow> getMultiSelectIds data key = [])
   \<and> ((\<forall>val. data key \<noteq> Some (JString val)) \<longrightarrow> getDateValue parse data key = zeroTime)
   \<and> length (membersOfPage parse extra results) = length results
   \<and> ((\<forall>k \<in> {''Id'', ''Surname'', ''First name'', ''E-mail'', ''Active MemberShip'',
               ''Last Payment Date'', ''Last Contribution Email Date'',
               ''Number of Contributions Email'', ''Membership type'', ''Preferred languages''}.
          data k = None \<or> data k = Some JNull)
        \<longrightarrow> memberFromRow parse extra data =
            \<lparr>Id = 0, Surname = [], FirstName = [], Email = [], ActiveMembership = False,
             LastPaymentDate = zeroTime, LastContributionEmailDate = zeroTime,
             NumberContributionsEmail = 0, MembershipType = 0, PreferredLanguages = [],
             \<dots> = extra data\<rparr>)"
proof (intro conjI impI)
  show "getStringValue data key = []" if "\<forall>val. data key \<noteq> Some (JString val)"
    using that by (simp add: getStringValue_def split: option.splits json.splits)
  show "getBoolValue data key = False" if "\<forall>val. data key \<noteq> Some (JBool val)"
    using that by (simp add: getBoolValue_def split: option.splits json.splits)
  show "getIntValue data key = 0" if "\<forall>val. data key \<noteq> Some (JNumber val)"
    using that by (simp add: getIntValue_def split: option.splits json.splits)
  show "getSelectId data key = 0"
    if "\<forall>obj idv. data key = Some (JObject obj) \<longrightarrow> obj ''id'' \<noteq> Some (JNumber idv)"
    using that by (auto simp: getSelectId_def split: option.splits json.splits)
  show "getMultiSelectIds data key = []" if "\<forall>items. data key \<noteq> Some (JArray items)"
    using that by (simp add: getMultiSelectIds_def split: option.splits json.splits)
  show "getDateValue parse data key = zeroTime" if "\<forall>val. data key \<noteq> Some (JString val)"
    using that by (simp add: getDateValue_def split: option.splits json.splits)
  show "length (membersOfPage parse extra results) = length results"
    by (simp add: membersOfPage_def)
  show "memberFromRow parse extra data =
            \<lparr>Id = 0, Surname = [], FirstName = [], Email = [], ActiveMembership = False,
             LastPaymentDate = zeroTime, LastContributionEmailDate = zeroTime,
             NumberContributionsEmail = 0, MembershipType = 0, PreferredLanguages = [],
             \<dots> = extra data\<rparr>"
    if unusable: "\<forall>k \<in> {''Id'', ''Surname'', ''First name'', ''E-mail'', ''Active MemberShip'',
               ''Last Payment Date'', ''Last Contribution Email Date'',
               ''Number of Contributions Email'', ''Membership type'', ''Preferred languages''}.
          data k = None \<or> data k = Some JNull"
  proof -
    have k: "data k = None \<or> data k = Some JNull"
      if "k \<in> {''Id'', ''Surname'', ''First name'', ''E-mail'', ''Active MemberShip'',
               ''Last Payment Date'', ''Last Contribution Email Date'',
               ''Number of Contributions Email'', ''Membership type'', ''Preferred languages''}" for k
      using unusable that by (rule bspec)
    have 1: "getIntValue data ''Id'' = 0"
      using k [of "''Id''"] by (auto simp: getIntValue_def)
    have 2: "getStringValue data ''Surname'' = []"
      using k [of "''Surname''"] by (auto simp: getStringValue_def)
    have 3: "getStringValue data ''First name'' = []"
      using k [of "''First name''"] by (auto simp: getStringValue_def)
    have 4: "getStringValue data ''E-mail'' = []"
      using k [of "''E-mail''"] by (auto simp: getStringValue_def)
    have 5: "getBoolValue data ''Active MemberShip'' = False"
      using k [of "''Active MemberShip''"] by (auto simp: getBoolValue_def)
    have 6: "getDateValue parse data ''Last Payment Date'' = zeroTime"
      using k [of "''Last Payment Date''"] by (auto simp: getDateValue_def)
    have 7: "getDateValue parse data ''Last Contribution Email Date'' = zeroTime"
      using k [of "''Last Contribution Email Date''"] by (auto simp: getDateValue_def)
    have 8: "getIntValue data ''Number of Contributions Email'' = 0"
      using k [of "''Number of Contributions Email''"] by (auto simp: getIntValue_def)
    have 9: "getSelectId data ''Membership type'' = 0"
      using k [of "''Membership type''"] by (auto simp: getSelectId_def)
    have 10: "getMultiSelectIds data ''Preferred languages'' = []"
      using k [of "''Preferred languages''"] by (auto simp: getMultiSelectIds_def)
    show ?thesis
      unfolding memberFromRow_def 1 2 3 4 5 6 7 8 9 10 ..
  qed
qed

lemma mistypedRow_columns:
  "mistypedRow ''Id'' = Some (JString ''8'')" "mistypedRow ''Surname'' = Some (JNumber 5)"
  "mistypedRow ''E-mail'' = Some (JBool True)"
  "mistypedRow ''Active MemberShip'' = Some (JString ''true'')"
  "mistypedRow ''Last Payment Date'' = Some (JNumber 20230401)"
  "mistypedRow ''Membership type'' = Some (JNumber 2521)"
  "mistypedRow ''Preferred languages'' = Some (JString ''fr'')"
  by (simp_all add: mistypedRow_def)

theorem extraction_total_with_defaults_witness:
  "getIntValue mistypedRow ''Id'' = 0
   \<and> getStringValue mistypedRow ''Surname'' = []
   \<and> getStringValue mistypedRow ''E-mail'' = []
   \<and> getBoolValue mistypedRow ''Active MemberShip'' = False
   \<and> getDateValue sampleParse mistypedRow ''Last Payment Date'' = zeroTime
   \<and> getSelectId mistypedRow ''Membership type'' = 0
   \<and> getMultiSelectIds mistypedRow ''Preferred languages'' = []
   \<and> length (membersOfPage sampleParse noExtra [mistypedRow, bobRow, Map.empty]) = 3
   \<and> memberFromRow sampleParse noExtra Map.empty =
        \<lparr>Id = 0, Surname = [], FirstName = [], Email = [], ActiveMembership = False,
         LastPaymentDate = zeroTime, LastContributionEmailDate = zeroTime,
         NumberContributionsEmail = 0, MembershipType = 0, PreferredLanguages = []\<rparr>"
  using extraction_total_with_defaults [of mistypedRow "''Id''" sampleParse noExtra "[mistypedRow, bobRow, Map.empty]"]
    extraction_total_with_defaults [of mistypedRow "''Surname''" sampleParse noExtra "[]"]
    extraction_total_with_defaults [of mistypedRow "''E-mail''" sampleParse noExtra "[]"]
    extraction_total_with_defaults [of mistypedRow "''Active MemberShip''" sampleParse noExtra "[]"]
    extraction_total_with_defaults [of mistypedRow "''Last Payment Date''" sampleParse noExtra "[]"]
    extraction_total_with_defaults [of mistypedRow "''Membership type''" sampleParse noExtra "[]"]
    extraction_total_with_defaults [of mistypedRow "''Preferred languages''" sampleParse noExtra "[]"]
    extraction_total_with_defaults [of Map.empty "''Id''" sampleParse noExtra "[]"]
  by (simp add: mistypedRow_columns noExtra_def)

section \<open>Reminders and status updates\<close>

subsection \<open>The language of the reminder\<close>

lemma languageLoop_iff: "languageLoop langs \<longleftrightarrow> FrenchId \<in> set langs"
  by (induction langs) auto

lemma isFrench_iff:
  "isFrench member \<longleftrightarrow>
     FrenchId \<in> set (PreferredLanguages member)
     \<or> (FrenchId \<notin> set (PreferredLanguages member) \<and> Country member = ''France'')"
  by (auto simp: isFrench_def Let_def languageLoop_iff)

lemma isFrench_reminder_fields:
  "isFrench (member\<lparr>ActiveMembership := a, LastPaymentDate := d\<rparr>) = isFrench member"
  by (simp add: isFrench_def)

lemma SendEmail_in_sendEmailAndUpdate:
  assumes "SendEmail e \<in> set (sendEmailAndUpdate prose moment pair)"
  shows "e = emailData prose ((Member pair)\<lparr>ActiveMembership := False,
                                LastPaymentDate := OrderDate (Payment pair)\<rparr>)"
  using assms by (auto simp: sendEmailAndUpdate_def Let_def split: if_splits option.splits)

lemma sendEmailAndUpdate_cases:
  "sendEmailAndUpdate prose moment pair =
     (let member = (Member pair)\<lparr>ActiveMembership := False, LastPaymentDate := OrderDate (Payment pair)\<rparr>
      in if \<not> Before (LastContributionEmailDate (Member pair)) (twoWeeksAgo moment) then []
         else if sendError moment = None
           then [SendEmail (emailData prose member),
                 UpdateMember (member\<lparr>LastContributionEmailDate := now moment,
                                       NumberContributionsEmail := NumberContributionsEmail (Member pair) + 1\<rparr>)]
           else [SendEmail (emailData prose member), UpdateMember member])"
  by (simp add: sendEmailAndUpdate_def Let_def split: option.splits)


subsection \<open>The sample reminders\<close>

lemma sample_names:
  "toCamelCase ''bob'' = ''Bob''" "toCamelCase ''CHLOE'' = ''Chloe''"
  "toCamelCase ''anne marie'' = ''Anne Marie''" "toCamelCase ''  jEAN   pIERRE '' = ''Jean Pierre''"
  by (simp_all add: toCamelCase_def Fields_def isSpace_def ToUpper_def ToLower_def)

lemma sample_languages: "isFrench anne" "\<not> isFrench bob" "isFrench chloe"
  by (simp_all add: isFrench_def FrenchId_def anne_fields bob_fields chloe_fields)

lemma bob_email:
  "emailData sampleProse (bob\<lparr>ActiveMembership := False, LastPaymentDate := d\<rparr>) = bobMail"
  by (simp add: emailData_def contributionLink_def isFrench_reminder_fields sample_languages
      bob_fields sample_names sampleProse_def bobMail_def)

lemma chloe_email:
  "emailData sampleProse (chloe\<lparr>ActiveMembership := False, LastPaymentDate := d\<rparr>) = chloeMail"
  by (simp add: emailData_def contributionLink_def isFrench_reminder_fields sample_languages
      chloe_fields sample_names sampleProse_def chloeMail_def)

lemma moment_fields:
  "twoWeeksAgo sampleMoment = dayTime 738986" "sendError sampleMoment = None"
  "now sampleMoment = dayTime 739000" "twoWeeksAgo failingMoment = dayTime 738986"
  "sendError failingMoment = Some ''status code: 503''" "sampleMoments pair = sampleMoment"
  by (simp_all add: sampleMoment_def failingMoment_def sampleMoments_def)

lemma sample_guards:
  "\<not> Before (LastContributionEmailDate anne) (dayTime 738986)"
  "\<not> Before (dayTime 738999) (dayTime 738986)"
  "Before zeroTime (dayTime 738986)"
  by (simp_all add: Before_def anne_fields dayTime_def zeroTime_def)

lemma anne_suppressed: "sendEmailAndUpdate sampleProse sampleMoment anneOld = []"
  by (simp add: sendEmailAndUpdate_cases pair_fields moment_fields sample_guards)

lemma bob_reminder:
  "sendEmailAndUpdate sampleProse sampleMoment bobOld = [SendEmail bobMail, UpdateMember bobReminded]"
  by (simp add: sendEmailAndUpdate_cases pair_fields moment_fields sample_guards bob_fields
      bob_email payment_fields bobReminded_def)

lemma bob_failed_reminder:
  "sendEmailAndUpdate sampleProse failingMoment bobOld = [SendEmail bobMail, UpdateMember bobNotReached]"
  by (simp add: sendEmailAndUpdate_cases pair_fields moment_fields sample_guards bob_fields
      bob_email payment_fields bobNotReached_def)

lemma chloe_reminder:
  "sendEmailAndUpdate sampleProse sampleMoment chloeOld = [SendEmail chloeMail, UpdateMember chloeReminded]"
  by (simp add: sendEmailAndUpdate_cases pair_fields moment_fields sample_guards chloe_fields
      chloe_email payment_fields chloeReminded_def)

lemma anne_update: "updateValidMembers anneNew = [UpdateMember anneRenewed]"
  by (simp add: updateValidMembers_def pair_fields payment_fields anneRenewed_def)


lemma run_renewal:
  "main sampleProse sampleYearAgo sampleMoments (Inr [payNew]) (Inr [anne])
   = Completed [UpdateMember anneRenewed]"
  by (simp add: main_def unique_new pairs_anne membersToUpdatePaymentNeeded_def
      membersToUpdateStatusUpdate_def sample_classes anne_update)

lemma run_three_members:
  "main sampleProse sampleYearAgo sampleMoments (Inr [payOld, payBob, payChloe]) (Inr [anne, bob, chloe])
   = Completed [SendEmail bobMail, UpdateMember bobReminded, SendEmail chloeMail, UpdateMember chloeReminded]"
  by (simp add: main_def unique_old_bob_chloe pairs_all membersToUpdatePaymentNeeded_def
      membersToUpdateStatusUpdate_def sample_classes moment_fields anne_suppressed bob_reminder
      chloe_reminder)

lemma sample_updated_fields:
  "Id bobReminded = 8" "Id chloeReminded = 9" "Id anneRenewed = 7" "Id bobNotReached = 8"
  "NumberContributionsEmail bobReminded = 1" "LastContributionEmailDate bobReminded = dayTime 739000"
  "NumberContributionsEmail bobNotReached = 0" "LastContributionEmailDate bobNotReached = zeroTime"
  "NumberContributionsEmail anneRenewed = 0"
  "LastContributionEmailDate anneRenewed = dayTime 738999"
  by (simp_all add: bobReminded_def chloeReminded_def anneRenewed_def bobNotReached_def
      bob_fields chloe_fields anne_fields)

subsection \<open>C7: which version of the message is sent\<close>

text \<open>
  C7. The French version of the message and the French contribution link are chosen
  exactly when the French language code is among the preferred languages of the member,
  or it is not and the country of the member is "France"; every other member gets the
  English version and the English link. Every e-mail that a reminder sends carries the
  subject, the bodies and the link of the version so chosen.
\<close>

theorem french_template_selection:
  "(isFrench member \<longleftrightarrow>
       FrenchId \<in> set (PreferredLanguages member)
       \<or> (FrenchId \<notin> set (PreferredLanguages member) \<and> Country member = ''France''))
   \<and> (SendEmail e \<in> set (sendEmailAndUpdate prose moment pair) \<longrightarrow>
        (let fr = (FrenchId \<in> set (PreferredLanguages (Member pair))
                   \<or> (FrenchId \<notin> set (PreferredLanguages (Member pair))
                       \<and> Country (Member pair) = ''France''));
             t = (if fr then french prose else english prose);
             link = (if fr
                     then ''https://www.helloasso.com/associations/boavizta/adhesions/cotisation-annuelle''
                     else ''https://www.helloasso.com/associations/boavizta/adhesions/annual-membership-fee'');
             name = toCamelCase (FirstName (Member pair))
         in Subject e = subjectLine t
            \<and> HtmlContent e = htmlUpToName t @ name @ htmlUpToLink t @ link @ htmlRest t
            \<and> TextContent e = textUpToName t @ name @ textUpToLink t @ link @ textRest t))"
proof (intro conjI impI)
  show "isFrench member \<longleftrightarrow>
       FrenchId \<in> set (PreferredLanguages member)
       \<or> (FrenchId \<notin> set (PreferredLanguages member) \<and> Country member = ''France'')"
    by (rule isFrench_iff)
next
  assume "SendEmail e \<in> set (sendEmailAndUpdate prose moment pair)"
  then have e: "e = emailData prose ((Member pair)\<lparr>ActiveMembership := False,
                                LastPaymentDate := OrderDate (Payment pair)\<rparr>)"
    by (rule SendEmail_in_sendEmailAndUpdate)
  have fr: "isFrench (Member pair) \<longleftrightarrow>
       FrenchId \<in> set (PreferredLanguages (Member pair))
       \<or> (FrenchId \<notin> set (PreferredLanguages (Member pair)) \<and> Country (Member pair) = ''France'')"
    by (rule isFrench_iff)
  show "(let fr = (FrenchId \<in> set (PreferredLanguages (Member pair))
                   \<or> (FrenchId \<notin> set (PreferredLanguages (Member pair))
                       \<and> Country (Member pair) = ''France''));
             t = (if fr then french prose else english prose);
             link = (if fr
                     then ''https://www.helloasso.com/associations/boavizta/adhesions/cotisation-annuelle''
                     else ''https://www.helloasso.com/associations/boavizta/adhesions/annual-membership-fee'');
             name = toCamelCase (FirstName (Member pair))
         in Subject e = subjectLine t
            \<and> HtmlContent e = htmlUpToName t @ name @ htmlUpToLink t @ link @ htmlRest t
            \<and> TextContent e = textUpToName t @ name @ textUpToLink t @ link @ textRest t)"
    unfolding Let_def fr [symmetric]
    by (simp add: e emailData_def contributionLink_def Let_def isFrench_reminder_fields)
qed

theorem french_template_selection_witness:
  "isFrench anne \<and> FrenchId \<notin> set (PreferredLanguages anne) \<and> Country anne = ''France''
   \<and> SendEmail chloeMail \<in> set (sendEmailAndUpdate sampleProse sampleMoment chloeOld)
   \<and> FrenchId \<in> set (PreferredLanguages chloe)
   \<and> Subject chloeMail = subjectLine (french sampleProse)
   \<and> SendEmail bobMail \<in> set (sendEmailAndUpdate sampleProse sampleMoment bobOld)
   \<and> FrenchId \<notin> set (PreferredLanguages bob) \<and> Country bob \<noteq> ''France''
   \<and> Subject bobMail = subjectLine (english sampleProse)"
proof -
  have a: "FrenchId \<notin> set (PreferredLanguages anne) \<and> Country anne = ''France''"
    by (simp add: anne_fields FrenchId_def)
  have c: "FrenchId \<in> set (PreferredLanguages chloe)"
    by (simp add: chloe_fields FrenchId_def)
  have b: "FrenchId \<notin> set (PreferredLanguages bob) \<and> Country bob \<noteq> ''France''"
    by (simp add: bob_fields FrenchId_def)
  have sc: "SendEmail chloeMail \<in> set (sendEmailAndUpdate sampleProse sampleMoment chloeOld)"
    by (simp add: chloe_reminder)
  have sb: "SendEmail bobMail \<in> set (sendEmailAndUpdate sampleProse sampleMoment bobOld)"
    by (simp add: bob_reminder)
  have "isFrench anne"
    using french_template_selection [of anne bobMail sampleProse sampleMoment bobOld] a by blast
  moreover have "Subject chloeMail = subjectLine (french sampleProse)"
    using french_template_selection [of anne chloeMail sampleProse sampleMoment chloeOld] sc c
    by (simp add: Let_def pair_fields)
  moreover have "Subject bobMail = subjectLine (english sampleProse)"
    using french_template_selection [of anne bobMail sampleProse sampleMoment bobOld] sb b
    by (simp add: Let_def pair_fields)
  ultimately show ?thesis using a b c sc sb by blast
qed

subsection \<open>The calls of a run and the member they concern\<close>




lemma main_calls:
  assumes "main prose oneYearAgo moment (Inr payments) (Inr members) = Completed calls"
    and "c \<in> set calls"
  shows "\<exists>p \<in> set (membersWithPayment (membersByEmail members) (uniquePayments payments)).
           (paymentNeeded oneYearAgo p \<and> c \<in> set (sendEmailAndUpdate prose (moment p) p))
           \<or> (statusUpdateNeeded oneYearAgo p \<and> c \<in> set (updateValidMembers p))"
  using assms
  by (auto simp: main_def Let_def membersToUpdatePaymentNeeded_def membersToUpdateStatusUpdate_def)



lemma main_segment:
  assumes "main prose oneYearAgo moments (Inr payments) (Inr members) = Completed calls"
    and "pair \<in> set (membersWithPayment (membersByEmail members) (uniquePayments payments))"
    and "paymentNeeded oneYearAgo pair"
  shows "\<exists>pre post. calls = pre @ sendEmailAndUpdate prose (moments pair) pair @ post"
proof -
  let ?pairs = "membersWithPayment (membersByEmail members) (uniquePayments payments)"
  let ?needed = "membersToUpdatePaymentNeeded oneYearAgo ?pairs"
  have "pair \<in> set ?needed"
    using assms(2,3) by (simp add: membersToUpdatePaymentNeeded_def)
  then obtain xs ys where "?needed = xs @ pair # ys"
    by (meson split_list)
  then have "calls = concat (map (\<lambda>p. sendEmailAndUpdate prose (moments p) p) xs)
      @ sendEmailAndUpdate prose (moments pair) pair
      @ (concat (map (\<lambda>p. sendEmailAndUpdate prose (moments p) p) ys)
         @ concat (map updateValidMembers (membersToUpdateStatusUpdate oneYearAgo ?pairs)))"
    using assms(1) by (simp add: main_def Let_def)
  then show ?thesis by blast
qed


subsection \<open>C2: no reminder within two weeks of the last one\<close>






subsection \<open>C3: when the reminder count and the reminder date change\<close>

lemma run_emails:
  assumes "main prose oneYearAgo moments (Inr payments) (Inr members) = Completed calls"
    and "SendEmail e \<in> set calls"
  shows "\<exists>p \<in> set (membersWithPayment (membersByEmail members) (uniquePayments payments)).
           paymentNeeded oneYearAgo p
           \<and> Before (LastContributionEmailDate (Member p)) (twoWeeksAgo (moments p))
           \<and> e = emailData prose ((Member p)\<lparr>ActiveMembership := False,
                    LastPaymentDate := OrderDate (Payment p)\<rparr>)"
proof -
  let ?pairs = "membersWithPayment (membersByEmail members) (uniquePayments payments)"
  obtain p where p: "p \<in> set ?pairs"
    and from_p: "(paymentNeeded oneYearAgo p \<and> SendEmail e \<in> set (sendEmailAndUpdate prose (moments p) p))
           \<or> (statusUpdateNeeded oneYearAgo p \<and> SendEmail e \<in> set (updateValidMembers p))"
    using main_calls [OF assms] by blast
  have "SendEmail e \<notin> set (updateValidMembers p)"
    by (simp add: updateValidMembers_def)
  with from_p have needed: "paymentNeeded oneYearAgo p"
    and sent: "SendEmail e \<in> set (sendEmailAndUpdate prose (moments p) p)"
    by blast+
  have "Before (LastContributionEmailDate (Member p)) (twoWeeksAgo (moments p))"
    using sent by (auto simp: sendEmailAndUpdate_cases Let_def split: if_splits)
  moreover have "e = emailData prose ((Member p)\<lparr>ActiveMembership := False,
                    LastPaymentDate := OrderDate (Payment p)\<rparr>)"
    using sent by (rule SendEmail_in_sendEmailAndUpdate)
  ultimately show ?thesis using p needed by blast
qed

text \<open>
  C3, as amended. In every run and for every member, the reminder count is incremented
  and the last reminder date is set to now only in the branch where the send returned
  success; if the send fails or is not attempted, neither field is changed before
  persistence, except that a status update persists the reminder count as 0 (and the last
  reminder date as stored).

  The theorem gives the calls of each path in full. A reminder whose guard fails makes no
  call. A reminder whose guard passes sends the e-mail and then updates the member: with
  the count plus one and the date now when the send returned success, with both fields as
  stored when it returned an error. A status update makes one call, the update of the
  member with the count 0 and the date as stored. In a run, every update is of one of
  these three kinds and every e-mail is the reminder of a pair whose guard passed.
\<close>

theorem reminder_fields_change_only_after_send:
  "(\<not> Before (LastContributionEmailDate (Member pair)) (twoWeeksAgo moment)
      \<longrightarrow> sendEmailAndUpdate prose moment pair = [])
   \<and> (Before (LastContributionEmailDate (Member pair)) (twoWeeksAgo moment)
        \<and> sendError moment = None
      \<longrightarrow> (\<exists>e m'. sendEmailAndUpdate prose moment pair = [SendEmail e, UpdateMember m']
             \<and> NumberContributionsEmail m' = NumberContributionsEmail (Member pair) + 1
             \<and> LastContributionEmailDate m' = now moment))
   \<and> (Before (LastContributionEmailDate (Member pair)) (twoWeeksAgo moment)
        \<and> sendError moment \<noteq> None
      \<longrightarrow> (\<exists>e m'. sendEmailAndUpdate prose moment pair = [SendEmail e, UpdateMember m']
             \<and> NumberContributionsEmail m' = NumberContributionsEmail (Member pair)
             \<and> LastContributionEmailDate m' = LastContributionEmailDate (Member pair)))
   \<and> (\<exists>m'. updateValidMembers pair = [UpdateMember m']
         \<and> NumberContributionsEmail m' = 0
         \<and> LastContributionEmailDate m' = LastContributionEmailDate (Member pair))
   \<and> (main prose oneYearAgo moments (Inr payments) (Inr members) = Completed calls
        \<and> UpdateMember m' \<in> set calls \<longrightarrow>
        (\<exists>p \<in> set (membersWithPayment (membersByEmail members) (uniquePayments payments)).
           (paymentNeeded oneYearAgo p \<and> sendError (moments p) = None
              \<and> SendEmail (emailData prose ((Member p)\<lparr>ActiveMembership := False,
                     LastPaymentDate := OrderDate (Payment p)\<rparr>)) \<in> set calls
              \<and> NumberContributionsEmail m' = NumberContributionsEmail (Member p) + 1
              \<and> LastContributionEmailDate m' = now (moments p))
           \<or> (paymentNeeded oneYearAgo p \<and> sendError (moments p) \<noteq> None
              \<and> NumberContributionsEmail m' = NumberContributionsEmail (Member p)
              \<and> LastContributionEmailDate m' = LastContributionEmailDate (Member p))
           \<or> (statusUpdateNeeded oneYearAgo p
              \<and> NumberContributionsEmail m' = 0
              \<and> LastContributionEmailDate m' = LastContributionEmailDate (Member p))))
   \<and> (main prose oneYearAgo moments (Inr payments) (Inr members) = Completed calls
        \<and> SendEmail e \<in> set calls \<longrightarrow>
        (\<exists>p \<in> set (membersWithPayment (membersByEmail members) (uniquePayments payments)).
           paymentNeeded oneYearAgo p
           \<and> Before (LastContributionEmailDate (Member p)) (twoWeeksAgo (moments p))
           \<and> e = emailData prose ((Member p)\<lparr>ActiveMembership := False,
                    LastPaymentDate := OrderDate (Payment p)\<rparr>)))"
proof -
  have quiet: "\<not> Before (LastContributionEmailDate (Member pair)) (twoWeeksAgo moment)
      \<longrightarrow> sendEmailAndUpdate prose moment pair = []"
    by (simp add: sendEmailAndUpdate_cases Let_def)
  have success: "Before (LastContributionEmailDate (Member pair)) (twoWeeksAgo moment)
        \<and> sendError moment = None
      \<longrightarrow> (\<exists>e m'. sendEmailAndUpdate prose moment pair = [SendEmail e, UpdateMember m']
             \<and> NumberContributionsEmail m' = NumberContributionsEmail (Member pair) + 1
             \<and> LastContributionEmailDate m' = now moment)"
    by (simp add: sendEmailAndUpdate_cases Let_def)
  have failure: "Before (LastContributionEmailDate (Member pair)) (twoWeeksAgo moment)
        \<and> sendError moment \<noteq> None
      \<longrightarrow> (\<exists>e m'. sendEmailAndUpdate prose moment pair = [SendEmail e, UpdateMember m']
             \<and> NumberContributionsEmail m' = NumberContributionsEmail (Member pair)
             \<and> LastContributionEmailDate m' = LastContributionEmailDate (Member pair))"
    by (simp add: sendEmailAndUpdate_cases Let_def)
  have status: "\<exists>m'. updateValidMembers pair = [UpdateMember m']
         \<and> NumberContributionsEmail m' = 0
         \<and> LastContributionEmailDate m' = LastContributionEmailDate (Member pair)"
    by (simp add: updateValidMembers_def)
  let ?pairs = "membersWithPayment (membersByEmail members) (uniquePayments payments)"
  let ?goal = "\<exists>p \<in> set ?pairs.
           (paymentNeeded oneYearAgo p \<and> sendError (moments p) = None
              \<and> SendEmail (emailData prose ((Member p)\<lparr>ActiveMembership := False,
                     LastPaymentDate := OrderDate (Payment p)\<rparr>)) \<in> set calls
              \<and> NumberContributionsEmail m' = NumberContributionsEmail (Member p) + 1
              \<and> LastContributionEmailDate m' = now (moments p))
           \<or> (paymentNeeded oneYearAgo p \<and> sendError (moments p) \<noteq> None
              \<and> NumberContributionsEmail m' = NumberContributionsEmail (Member p)
              \<and> LastContributionEmailDate m' = LastContributionEmailDate (Member p))
           \<or> (statusUpdateNeeded oneYearAgo p
              \<and> NumberContributionsEmail m' = 0
              \<and> LastContributionEmailDate m' = LastContributionEmailDate (Member p))"
  have run: "main prose oneYearAgo moments (Inr payments) (Inr members) = Completed calls
        \<and> UpdateMember m' \<in> set calls \<longrightarrow> ?goal"
  proof
    assume a: "main prose oneYearAgo moments (Inr payments) (Inr members) = Completed calls
        \<and> UpdateMember m' \<in> set calls"
    obtain p where p: "p \<in> set ?pairs"
      and from_p: "(paymentNeeded oneYearAgo p \<and> UpdateMember m' \<in> set (sendEmailAndUpdate prose (moments p) p))
           \<or> (statusUpdateNeeded oneYearAgo p \<and> UpdateMember m' \<in> set (updateValidMembers p))"
      using main_calls [of prose oneYearAgo moments payments members calls "UpdateMember m'"] a by blast
    let ?member = "(Member p)\<lparr>ActiveMembership := False, LastPaymentDate := OrderDate (Payment p)\<rparr>"
    from from_p show ?goal
    proof
      assume r: "paymentNeeded oneYearAgo p \<and> UpdateMember m' \<in> set (sendEmailAndUpdate prose (moments p) p)"
      show ?goal
      proof (cases "sendError (moments p) = None")
        case True
        have "SendEmail (emailData prose ?member) \<in> set (sendEmailAndUpdate prose (moments p) p)"
          using r True by (auto simp: sendEmailAndUpdate_cases Let_def split: if_splits)
        moreover have "p \<in> set (membersToUpdatePaymentNeeded oneYearAgo ?pairs)"
          using p r by (simp add: membersToUpdatePaymentNeeded_def)
        ultimately have "SendEmail (emailData prose ?member) \<in> set calls"
          using a by (auto simp: main_def Let_def)
        moreover have "NumberContributionsEmail m' = NumberContributionsEmail (Member p) + 1
                \<and> LastContributionEmailDate m' = now (moments p)"
          using r True by (auto simp: sendEmailAndUpdate_cases Let_def split: if_splits)
        ultimately show ?thesis using p r True by blast
      next
        case False
        have "NumberContributionsEmail m' = NumberContributionsEmail (Member p)
                \<and> LastContributionEmailDate m' = LastContributionEmailDate (Member p)"
          using r False by (auto simp: sendEmailAndUpdate_cases Let_def split: if_splits)
        then show ?thesis using p r False by blast
      qed
    next
      assume r: "statusUpdateNeeded oneYearAgo p \<and> UpdateMember m' \<in> set (updateValidMembers p)"
      then have "NumberContributionsEmail m' = 0
                \<and> LastContributionEmailDate m' = LastContributionEmailDate (Member p)"
        by (auto simp: updateValidMembers_def)
      then show ?goal using p r by blast
    qed
  qed
  have emails: "main prose oneYearAgo moments (Inr payments) (Inr members) = Completed calls
        \<and> SendEmail e \<in> set calls \<longrightarrow>
        (\<exists>p \<in> set ?pairs.
           paymentNeeded oneYearAgo p
           \<and> Before (LastContributionEmailDate (Member p)) (twoWeeksAgo (moments p))
           \<and> e = emailData prose ((Member p)\<lparr>ActiveMembership := False,
                    LastPaymentDate := OrderDate (Payment p)\<rparr>))"
    using run_emails [of prose oneYearAgo moments payments members calls e] by blast
  show ?thesis
    by (rule conjI [OF quiet conjI [OF success conjI [OF failure conjI [OF status conjI [OF run emails]]]]])
qed

theorem reminder_fields_change_only_after_send_witness:
  "Before (LastContributionEmailDate (Member bobOld)) (twoWeeksAgo sampleMoment)
   \<and> sendError sampleMoment = None
   \<and> sendEmailAndUpdate sampleProse sampleMoment bobOld = [SendEmail bobMail, UpdateMember bobReminded]
   \<and> NumberContributionsEmail bobReminded = NumberContributionsEmail bob + 1
   \<and> LastContributionEmailDate bobReminded = now sampleMoment
   \<and> sendError failingMoment \<noteq> None
   \<and> sendEmailAndUpdate sampleProse failingMoment bobOld = [SendEmail bobMail, UpdateMember bobNotReached]
   \<and> NumberContributionsEmail bobNotReached = NumberContributionsEmail bob
   \<and> LastContributionEmailDate bobNotReached = LastContributionEmailDate bob
   \<and> \<not> Before (LastContributionEmailDate (Member anneOld)) (twoWeeksAgo sampleMoment)
   \<and> sendEmailAndUpdate sampleProse sampleMoment anneOld = []
   \<and> updateValidMembers anneNew = [UpdateMember anneRenewed]
   \<and> NumberContributionsEmail anneRenewed = 0
   \<and> LastContributionEmailDate anneRenewed = LastContributionEmailDate anne"
proof -
  have guard: "Before (LastContributionEmailDate (Member bobOld)) (twoWeeksAgo sampleMoment)"
    "Before (LastContributionEmailDate (Member bobOld)) (twoWeeksAgo failingMoment)"
    by (simp_all add: pair_fields bob_fields moment_fields sample_guards)
  have recent: "\<not> Before (LastContributionEmailDate (Member anneOld)) (twoWeeksAgo sampleMoment)"
    by (simp add: pair_fields moment_fields sample_guards)
  have ok: "sendError sampleMoment = None" and ko: "sendError failingMoment \<noteq> None"
    by (simp_all add: moment_fields)
  note sent = reminder_fields_change_only_after_send [of bobOld sampleMoment sampleProse]
  note failed = reminder_fields_change_only_after_send [of bobOld failingMoment sampleProse]
  note quiet = reminder_fields_change_only_after_send [of anneOld sampleMoment sampleProse]
  note renewed = reminder_fields_change_only_after_send [of anneNew sampleMoment sampleProse]
  have "NumberContributionsEmail bobReminded = NumberContributionsEmail bob + 1
      \<and> LastContributionEmailDate bobReminded = now sampleMoment"
    using sent guard(1) ok by (auto simp: bob_reminder pair_fields)
  moreover have "NumberContributionsEmail bobNotReached = NumberContributionsEmail bob
      \<and> LastContributionEmailDate bobNotReached = LastContributionEmailDate bob"
    using failed guard(2) ko by (auto simp: bob_failed_reminder pair_fields)
  moreover have "sendEmailAndUpdate sampleProse sampleMoment anneOld = []"
    using quiet recent by blast
  moreover have "NumberContributionsEmail anneRenewed = 0
      \<and> LastContributionEmailDate anneRenewed = LastContributionEmailDate anne"
    using renewed by (auto simp: anne_update pair_fields)
  ultimately show ?thesis
    using guard(1) recent ok ko bob_reminder bob_failed_reminder anne_update by blast
qed

text \<open>
  The claim as it stands, neither field changes when no send is attempted, fails on a
  status update: Anne's payment of ten days ago makes the run update her row with the
  reminder count 0 where 3 was stored, and the run sends nothing.
\<close>

theorem reminder_count_reset_counterexample:
  "main sampleProse sampleYearAgo sampleMoments (Inr [payNew]) (Inr [anne])
     = Completed [UpdateMember anneRenewed]
   \<and> Id anneRenewed = Id anne
   \<and> NumberContributionsEmail anne = 3
   \<and> NumberContributionsEmail anneRenewed = 0"
  by (simp add: run_renewal sample_updated_fields anne_fields)

subsection \<open>C9: a member who was never reminded\<close>

text \<open>
  C9. A member whose reminder column is absent, not a string, empty or not a date comes
  out of the extraction with the zero time as last reminder date. For every pair whose
  member has the zero time there, the guard passes (the clock being past 14 January of
  year 1, so that the zero time is before now minus 14 days), and handling the pair sends
  an e-mail to the member and then updates the member's row, whatever the send returns;
  in a run, these two calls stand one after the other among the calls of the run.
\<close>

theorem never_reminded_member_gets_email:
  "((\<forall>dateStr. result ''Last Contribution Email Date'' = Some (JString dateStr)
        \<longrightarrow> dateStr = [] \<or> parse dateStr = None)
      \<longrightarrow> LastContributionEmailDate (memberFromRow parse extra result) = zeroTime)
   \<and> (LastContributionEmailDate (Member pair) = zeroTime \<and> Before zeroTime (twoWeeksAgo (moments pair))
      \<longrightarrow> (\<exists>e m'. sendEmailAndUpdate prose (moments pair) pair = [SendEmail e, UpdateMember m']
             \<and> ToEmail e = Email (Member pair) \<and> Id m' = Id (Member pair)))
   \<and> (LastContributionEmailDate (Member pair) = zeroTime \<and> Before zeroTime (twoWeeksAgo (moments pair))
      \<and> pair \<in> set (membersWithPayment (membersByEmail members) (uniquePayments payments))
      \<and> paymentNeeded oneYearAgo pair
      \<and> main prose oneYearAgo moments (Inr payments) (Inr members) = Completed calls
      \<longrightarrow> (\<exists>pre e m' post. calls = pre @ SendEmail e # UpdateMember m' # post
             \<and> ToEmail e = Email (Member pair) \<and> Id m' = Id (Member pair)))"
proof (intro conjI impI)
  assume "\<forall>dateStr. result ''Last Contribution Email Date'' = Some (JString dateStr)
        \<longrightarrow> dateStr = [] \<or> parse dateStr = None"
  then have "getDateValue parse result ''Last Contribution Email Date'' = zeroTime"
    by (auto simp: getDateValue_def split: option.splits json.splits)
  then show "LastContributionEmailDate (memberFromRow parse extra result) = zeroTime"
    by (simp add: memberFromRow_def)
next
  assume "LastContributionEmailDate (Member pair) = zeroTime \<and> Before zeroTime (twoWeeksAgo (moments pair))"
  then show "\<exists>e m'. sendEmailAndUpdate prose (moments pair) pair = [SendEmail e, UpdateMember m']
             \<and> ToEmail e = Email (Member pair) \<and> Id m' = Id (Member pair)"
    by (simp add: sendEmailAndUpdate_cases Let_def emailData_def)
next
  assume a: "LastContributionEmailDate (Member pair) = zeroTime \<and> Before zeroTime (twoWeeksAgo (moments pair))
      \<and> pair \<in> set (membersWithPayment (membersByEmail members) (uniquePayments payments))
      \<and> paymentNeeded oneYearAgo pair
      \<and> main prose oneYearAgo moments (Inr payments) (Inr members) = Completed calls"
  then have "\<exists>e m'. sendEmailAndUpdate prose (moments pair) pair = [SendEmail e, UpdateMember m']
             \<and> ToEmail e = Email (Member pair) \<and> Id m' = Id (Member pair)"
    by (simp add: sendEmailAndUpdate_cases Let_def emailData_def)
  then obtain e m' where sent: "sendEmailAndUpdate prose (moments pair) pair = [SendEmail e, UpdateMember m']"
    and about: "ToEmail e = Email (Member pair)" "Id m' = Id (Member pair)"
    by blast
  obtain pre post where "calls = pre @ sendEmailAndUpdate prose (moments pair) pair @ post"
    using main_segment [of prose oneYearAgo moments payments members calls pair] a by blast
  then have "calls = pre @ SendEmail e # UpdateMember m' # post"
    by (simp add: sent)
  with about show "\<exists>pre e m' post. calls = pre @ SendEmail e # UpdateMember m' # post
             \<and> ToEmail e = Email (Member pair) \<and> Id m' = Id (Member pair)"
    by blast
qed

lemma bobRow_reminder_column: "bobRow ''Last Contribution Email Date'' = Some (JString [])"
  by (simp add: bobRow_def)

theorem never_reminded_member_gets_email_witness:
  "LastContributionEmailDate (memberFromRow sampleParse noExtra bobRow) = zeroTime
   \<and> LastContributionEmailDate (Member bobOld) = zeroTime
   \<and> Before zeroTime (twoWeeksAgo (sampleMoments bobOld))
   \<and> bobOld \<in> set (membersWithPayment (membersByEmail [anne, bob, chloe])
                    (uniquePayments [payOld, payBob, payChloe]))
   \<and> paymentNeeded sampleYearAgo bobOld
   \<and> sendEmailAndUpdate sampleProse (sampleMoments bobOld) bobOld
       = [SendEmail bobMail, UpdateMember bobReminded]
   \<and> (\<exists>pre e m' post.
        [SendEmail bobMail, UpdateMember bobReminded, SendEmail chloeMail, UpdateMember chloeReminded]
          = pre @ SendEmail e # UpdateMember m' # post
        \<and> ToEmail e = Email bob \<and> Id m' = Id bob)"
proof -
  have never: "LastContributionEmailDate (Member bobOld) = zeroTime"
    by (simp add: pair_fields bob_fields)
  have clock: "Before zeroTime (twoWeeksAgo (sampleMoments bobOld))"
    by (simp add: moment_fields sample_guards)
  have matched: "bobOld \<in> set (membersWithPayment (membersByEmail [anne, bob, chloe])
                    (uniquePayments [payOld, payBob, payChloe]))"
    by (simp add: unique_old_bob_chloe pairs_all)
  have needed: "paymentNeeded sampleYearAgo bobOld"
    by (rule sample_classes)
  note t = never_reminded_member_gets_email [of bobRow sampleParse noExtra bobOld sampleMoments
      sampleProse "[anne, bob, chloe]" "[payOld, payBob, payChloe]" sampleYearAgo
      "[SendEmail bobMail, UpdateMember bobReminded, SendEmail chloeMail, UpdateMember chloeReminded]"]
  have row: "LastContributionEmailDate (memberFromRow sampleParse noExtra bobRow) = zeroTime"
    using t by (simp add: bobRow_reminder_column)
  have run: "\<exists>pre e m' post.
        [SendEmail bobMail, UpdateMember bobReminded, SendEmail chloeMail, UpdateMember chloeReminded]
          = pre @ SendEmail e # UpdateMember m' # post
        \<and> ToEmail e = Email (Member bobOld) \<and> Id m' = Id (Member bobOld)"
    using t never clock matched needed run_three_members by blast
  have here: "sendEmailAndUpdate sampleProse (sampleMoments bobOld) bobOld
       = [SendEmail bobMail, UpdateMember bobReminded]"
    by (simp add: moment_fields bob_reminder)
  from row never clock matched needed here run show ?thesis
    by (simp add: pair_fields)
qed

end
